theory Spec2Isabelle
  imports Complex_Main
begin

section \<open>ExpTrackerBot: the webhook controller and its services\<close>

text \<open>
  The development embeds \<^verbatim>\<open>handleWebhook\<close> (the webhook controller, second version of the
  file, with the Actual Budget integration), \<^verbatim>\<open>actual.service.js\<close>, \<^verbatim>\<open>gemini.service.js\<close>,
  the WAHA messaging service and the \<^verbatim>\<open>WebhookEvent\<close> model.

  Conventions of the embedding:
  \<^item> JavaScript strings are \<open>string\<close> (byte lists, UTF-8 for the two emoji and the no-break
    space); \<^verbatim>\<open>toLowerCase\<close> is modelled on the ASCII letters.
  \<^item> A nullable or optional field is an \<open>option\<close> (\<open>None\<close> is \<^verbatim>\<open>null\<close>/\<^verbatim>\<open>undefined\<close>).
  \<^item> A JavaScript number is an IEEE 754 double: its value as a rational, or minus zero, an
    infinity or \<^verbatim>\<open>NaN\<close>. Every operation rounds its exact result to the nearest double,
    ties to even.
  \<^item> What \<^verbatim>\<open>Intl.NumberFormat\<close> returns is decided by the locale data of the runtime, not
    by the program: the formatter is part of the environment.
  \<^item> Every external call (database, WAHA, Gemini, Actual) is recorded in the order it is
    issued; what the external party answers is read from an environment record. Logging
    (\<^verbatim>\<open>console.log\<close>, \<^verbatim>\<open>logger\<close>) is not modelled.
  \<^item> A thrown exception is the \<open>Inl\<close> of a sum; \<^verbatim>\<open>catchAsync\<close> hands it to the error
    middleware, so a result \<open>Inl e\<close> of the handler is a failed request.
\<close>

subsection \<open>Strings\<close>

definition upper_letters :: string where
  "upper_letters = ''ABCDEFGHIJKLMNOPQRSTUVWXYZ''"

definition lower_letters :: string where
  "lower_letters = ''abcdefghijklmnopqrstuvwxyz''"

definition toLowerCase_char :: "char \<Rightarrow> char" where
  "toLowerCase_char c =
     (case map_of (zip upper_letters lower_letters) c of Some l \<Rightarrow> l | None \<Rightarrow> c)"

text \<open>\<^verbatim>\<open>String.prototype.toLowerCase\<close>, on ASCII.\<close>

definition toLowerCase :: "string \<Rightarrow> string" where
  "toLowerCase s = map toLowerCase_char s"

text \<open>\<^verbatim>\<open>Array.prototype.join\<close>.\<close>

fun join :: "string list \<Rightarrow> string \<Rightarrow> string" where
  "join [] sep = []"
| "join [x] sep = x"
| "join (x # y # ys) sep = x @ sep @ join (y # ys) sep"

definition newline :: string where
  "newline = [CHR 0x0A]"

text \<open>The bank emoji U+1F3E6 and the bar-chart emoji U+1F4CA, in UTF-8.\<close>

definition bank_emoji :: string where
  "bank_emoji = [CHR 0xF0, CHR 0x9F, CHR 0x8F, CHR 0xA6]"

definition chart_emoji :: string where
  "chart_emoji = [CHR 0xF0, CHR 0x9F, CHR 0x93, CHR 0x8A]"

subsection \<open>Numbers\<close>

text \<open>
  A JavaScript number. \<open>Num q\<close> is the double whose value is \<open>q\<close> (plus zero for
  \<open>q = 0\<close>); minus zero, the infinities and \<^verbatim>\<open>NaN\<close> are the other values.
\<close>

datatype number = Num rat | NegZero | PosInfinity | NegInfinity | NaN

definition pow2 :: "int \<Rightarrow> rat" where
  "pow2 e = (if 0 \<le> e then 2 ^ nat e else 1 / 2 ^ nat (- e))"

text \<open>The number of binary digits of a natural number.\<close>

fun bitLength :: "nat \<Rightarrow> nat" where
  "bitLength n = (if n = 0 then 0 else Suc (bitLength (n div 2)))"

declare bitLength.simps [simp del]

text \<open>The binary exponent of a positive rational \<open>a\<close>: the \<open>e\<close> with \<open>2^e \<le> a < 2^(e+1)\<close>.\<close>

definition exponentOf :: "rat \<Rightarrow> int" where
  "exponentOf a =
     (if 1 \<le> a then int (bitLength (nat \<lfloor>a\<rfloor>)) - 1
      else (let k = int (bitLength (nat \<lfloor>1 / a\<rfloor>)) - 1
            in if pow2 (- k) \<le> a then - k else - k - 1))"

text \<open>The nearest integer, a tie going to the even one.\<close>

definition roundHalfEven :: "rat \<Rightarrow> int" where
  "roundHalfEven m =
     (let f = \<lfloor>m\<rfloor>; r = m - of_int f
      in if r < 1 / 2 then f else if 1 / 2 < r then f + 1 else if even f then f else f + 1)"

text \<open>
  The double nearest to a rational (IEEE 754 binary64, round to nearest, ties to even):
  53 significant bits, the least exponent \<open>-1022\<close> (below it the numbers are subnormal,
  multiples of \<open>2^-1074\<close>), and an infinity from \<open>2^1024\<close> on. A result that rounds to
  zero keeps the sign.
\<close>

definition roundToDouble :: "rat \<Rightarrow> number" where
  "roundToDouble q =
     (if q = 0 then Num 0
      else
        (let a = \<bar>q\<bar>;
             e = max (exponentOf a) (- 1022);
             ulp = pow2 (e - 52);
             r = of_int (roundHalfEven (a / ulp)) * ulp
         in if pow2 1024 \<le> r then (if q < 0 then NegInfinity else PosInfinity)
            else if r = 0 then (if q < 0 then NegZero else Num 0)
            else Num (if q < 0 then - r else r)))"

text \<open>\<^verbatim>\<open>x * 100\<close>, \<^verbatim>\<open>x / 100\<close>, \<^verbatim>\<open>Math.abs(x)\<close> and unary minus.\<close>

fun times100 :: "number \<Rightarrow> number" where
  "times100 (Num q) = roundToDouble (q * 100)"
| "times100 NegZero = NegZero"
| "times100 PosInfinity = PosInfinity"
| "times100 NegInfinity = NegInfinity"
| "times100 NaN = NaN"

fun divide100 :: "number \<Rightarrow> number" where
  "divide100 (Num q) = roundToDouble (q / 100)"
| "divide100 NegZero = NegZero"
| "divide100 PosInfinity = PosInfinity"
| "divide100 NegInfinity = NegInfinity"
| "divide100 NaN = NaN"

fun Math_abs :: "number \<Rightarrow> number" where
  "Math_abs (Num q) = Num \<bar>q\<bar>"
| "Math_abs NegZero = Num 0"
| "Math_abs PosInfinity = PosInfinity"
| "Math_abs NegInfinity = PosInfinity"
| "Math_abs NaN = NaN"

fun negate :: "number \<Rightarrow> number" where
  "negate (Num q) = (if q = 0 then NegZero else Num (- q))"
| "negate NegZero = Num 0"
| "negate PosInfinity = NegInfinity"
| "negate NegInfinity = PosInfinity"
| "negate NaN = NaN"

text \<open>
  The white space and the line terminators of the language, in UTF-8: the six ASCII
  characters, U+00A0, U+1680, U+2000 to U+200A, U+2028, U+2029, U+202F, U+205F, U+3000 and
  U+FEFF.
\<close>

definition whiteSpace :: "string list" where
  "whiteSpace =
     [[CHR 0x09], [CHR 0x0A], [CHR 0x0B], [CHR 0x0C], [CHR 0x0D], [CHR 0x20],
      [CHR 0xC2, CHR 0xA0],
      [CHR 0xE1, CHR 0x9A, CHR 0x80],
      [CHR 0xE2, CHR 0x80, CHR 0x80], [CHR 0xE2, CHR 0x80, CHR 0x81],
      [CHR 0xE2, CHR 0x80, CHR 0x82], [CHR 0xE2, CHR 0x80, CHR 0x83],
      [CHR 0xE2, CHR 0x80, CHR 0x84], [CHR 0xE2, CHR 0x80, CHR 0x85],
      [CHR 0xE2, CHR 0x80, CHR 0x86], [CHR 0xE2, CHR 0x80, CHR 0x87],
      [CHR 0xE2, CHR 0x80, CHR 0x88], [CHR 0xE2, CHR 0x80, CHR 0x89],
      [CHR 0xE2, CHR 0x80, CHR 0x8A],
      [CHR 0xE2, CHR 0x80, CHR 0xA8], [CHR 0xE2, CHR 0x80, CHR 0xA9],
      [CHR 0xE2, CHR 0x80, CHR 0xAF],
      [CHR 0xE2, CHR 0x81, CHR 0x9F],
      [CHR 0xE3, CHR 0x80, CHR 0x80],
      [CHR 0xEF, CHR 0xBB, CHR 0xBF]]"

definition startsWith :: "string \<Rightarrow> string \<Rightarrow> bool" where
  "startsWith s prefix \<longleftrightarrow> take (length prefix) s = prefix"

function trimStart :: "string \<Rightarrow> string" where
  "trimStart s =
     (case find (startsWith s) whiteSpace of
        None \<Rightarrow> s
      | Some ws \<Rightarrow> trimStart (drop (length ws) s))"
  by pat_completeness auto

termination
proof (relation "measure length")
  show "wf (measure length)" by simp
next
  fix s ws
  assume "find (startsWith s) whiteSpace = Some ws"
  then have "startsWith s ws" and "ws \<in> set whiteSpace"
    by (auto simp add: find_Some_iff)
  then have "ws \<noteq> []" and "take (length ws) s = ws"
    by (auto simp add: whiteSpace_def startsWith_def)
  then have "s \<noteq> []" and "0 < length ws" by auto
  then show "(drop (length ws) s, s) \<in> measure length" by simp
qed

declare trimStart.simps [simp del]

definition digitValue :: "char \<Rightarrow> nat option" where
  "digitValue c = map_of (zip ''0123456789'' [0, 1, 2, 3, 4, 5, 6, 7, 8, 9]) c"

definition isDigit :: "char \<Rightarrow> bool" where
  "isDigit c \<longleftrightarrow> digitValue c \<noteq> None"

definition natOfDigits :: "string \<Rightarrow> nat" where
  "natOfDigits ds = foldl (\<lambda>a c. 10 * a + (case digitValue c of Some d \<Rightarrow> d | None \<Rightarrow> 0)) 0 ds"

text \<open>The sign in front of a literal: whether it is a minus, and the rest.\<close>

fun takeSign :: "string \<Rightarrow> bool \<times> string" where
  "takeSign [] = (False, [])"
| "takeSign (c # r) =
     (if c = CHR ''-'' then (True, r) else if c = CHR ''+'' then (False, r) else (False, c # r))"

text \<open>The fraction digits after a decimal point, if there is a point.\<close>

fun takeFraction :: "string \<Rightarrow> string \<times> string" where
  "takeFraction [] = ([], [])"
| "takeFraction (c # r) =
     (if c = CHR ''.'' then (takeWhile isDigit r, dropWhile isDigit r) else ([], c # r))"

text \<open>
  The exponent part: \<^verbatim>\<open>e\<close> or \<^verbatim>\<open>E\<close>, an optional sign and at least one digit; anything
  else is no exponent.
\<close>

fun takeExponent :: "string \<Rightarrow> int" where
  "takeExponent [] = 0"
| "takeExponent (c # r) =
     (if c = CHR ''e'' \<or> c = CHR ''E'' then
        (case takeSign r of (neg, r') \<Rightarrow>
           (let ds = takeWhile isDigit r' in
            if ds = [] then 0
            else if neg then - int (natOfDigits ds) else int (natOfDigits ds)))
      else 0)"

definition pow10 :: "int \<Rightarrow> rat" where
  "pow10 e = (if 0 \<le> e then 10 ^ nat e else 1 / 10 ^ nat (- e))"

text \<open>
  \<^verbatim>\<open>parseFloat\<close>: leading white space is skipped, the longest prefix that is a decimal
  literal is read, and a string with no such prefix gives \<^verbatim>\<open>NaN\<close>. The result is the
  double nearest to the value of the literal; a literal of value zero keeps its sign.
\<close>

definition parseFloat :: "string \<Rightarrow> number" where
  "parseFloat s =
     (case takeSign (trimStart s) of (neg, u) \<Rightarrow>
        if take 8 u = ''Infinity'' then (if neg then NegInfinity else PosInfinity)
        else
          (let ip = takeWhile isDigit u;
               (fp, rest) = takeFraction (dropWhile isDigit u)
           in if ip = [] \<and> fp = [] then NaN
              else
                (let m = (of_nat (natOfDigits ip) + of_nat (natOfDigits fp) / 10 ^ length fp)
                           * pow10 (takeExponent rest)
                 in if m = 0 then (if neg then NegZero else Num 0)
                    else roundToDouble (if neg then - m else m))))"

subsection \<open>Entities of the budgeting backend\<close>

record account =
  id :: string
  name :: string
  closed :: bool

record category =
  id :: string
  name :: string

record payee =
  id :: string
  name :: string
  transfer_acct :: "string option"

text \<open>A category of a budget month, with its amounts in minor units.\<close>

record budget_category =
  name :: string
  budgeted :: number
  spent :: number
  balance :: number

record category_group =
  name :: string
  is_income :: bool
  categories :: "budget_category list"

text \<open>
  The object \<^verbatim>\<open>getBudgetMonth\<close> returns: a property that is not there reads as
  \<^verbatim>\<open>undefined\<close> (\<open>None\<close>).
\<close>

type_synonym budget_month = "string \<Rightarrow> category_group list option"

text \<open>
  An outgoing ledger transaction. A transfer leg has \<open>payee\<close> (a payee id) and neither
  \<open>category\<close> nor \<open>payee_name\<close>; an income or expense has \<open>category\<close> and \<open>payee_name\<close>.
\<close>

record transaction =
  date :: string
  amount :: number
  payee :: "string option"
  "notes" :: string
  category :: "string option"
  payee_name :: "string option"
  cleared :: bool

subsection \<open>Name resolution\<close>

text \<open>
  \<^verbatim>\<open>xs.find((x) => x.name.toLowerCase() === wanted.toLowerCase())\<close>, the lookup of lines
  116, 125, 164, 220 and 239.
\<close>

definition findByName :: "('a \<Rightarrow> string) \<Rightarrow> 'a list \<Rightarrow> string \<Rightarrow> 'a option" where
  "findByName nameOf xs wanted = find (\<lambda>x. toLowerCase (nameOf x) = toLowerCase wanted) xs"

subsection \<open>The answers of the language model\<close>

datatype intent = Transaction | Question | Query_balance

datatype transactionDetail = Expense | Income | Transfer

record intentData =
  intent :: intent
  transactionDetail :: transactionDetail

record transactionData =
  description :: string
  amount :: string
  category :: string
  payee :: "string option"
  source_account_name :: string
  message_to_user :: string

datatype query_type = Account | Budget | Summary

record queryData =
  query_type :: query_type
  name :: "string option"

text \<open>
  What a schema-constrained generation yields: the call is rejected or its text is not
  JSON (\<open>Rejected\<close>), the JSON has not the shape of the schema (\<open>Malformed\<close>, a
  \<^verbatim>\<open>ZodError\<close>), or it has (\<open>Parsed\<close>). The two \<^verbatim>\<open>z.enum\<close> fields of the transaction
  schema are checked in \<open>processTransaction\<close> below.
\<close>

datatype 'a generated = Rejected | Malformed | Parsed 'a

subsection \<open>Errors, external calls, the environment and the state\<close>

text \<open>
  \<^verbatim>\<open>ApiError(statusCode, message)\<close>, with the fixed part of the message (the upstream
  message appended to it is not modelled), and the \<^verbatim>\<open>TypeError\<close> of reading a property
  of \<^verbatim>\<open>null\<close> or \<^verbatim>\<open>undefined\<close>, the error of a rejected database operation, and an
  error of a library that no service wraps.
\<close>

datatype error = ApiError nat string | TypeError | MongooseError | LibraryError

datatype generation =
    DetermineIntent
  | ProcessTransaction "string list" "string list"
  | ProcessBalanceQuery "string list" "string list"
  | GetAnswer

datatype call =
    WebhookEvent_findOne string
  | WebhookEvent_create string
  | Waha_sendSeen string
  | Waha_sendText string string
  | Gemini_generateContent generation string
  | Actual_init
  | Actual_downloadBudget
  | Actual_getAccounts
  | Actual_getCategories
  | Actual_getPayees
  | Actual_getAccountBalance string
  | Actual_getBudgetMonth string
  | Actual_addTransactions string "transaction list"
  | Actual_shutdown

text \<open>
  The environment: what each external party answers (\<open>None\<close> or \<open>False\<close>: the call
  rejects), the clock, and what the runtime's
  \<^verbatim>\<open>new Intl.NumberFormat('id-ID', { style: 'currency', currency: 'IDR' }).format\<close> returns.
\<close>

record env =
  db_findOne :: "string \<Rightarrow> bool"
  db_create :: "string \<Rightarrow> bool"
  gemini_intent :: "string \<Rightarrow> intentData generated"
  gemini_transaction :: "string \<Rightarrow> string list \<Rightarrow> string list \<Rightarrow> transactionData generated"
  gemini_balanceQuery :: "string \<Rightarrow> string list \<Rightarrow> string list \<Rightarrow> queryData generated"
  gemini_answer :: "string \<Rightarrow> string option"
  waha_sendText :: "string \<Rightarrow> string \<Rightarrow> bool"
  actual_init :: bool
  actual_downloadBudget :: bool
  actual_getAccounts :: "account list option"
  actual_getCategories :: "category list option"
  actual_getPayees :: "payee list option"
  actual_getAccountBalance :: "string \<Rightarrow> number option"
  actual_getBudgetMonth :: "string \<Rightarrow> budget_month option"
  actual_addTransactions :: "string \<Rightarrow> transaction list \<Rightarrow> bool"
  actual_shutdown :: bool
  toISOString :: string
  intl_format :: "number \<Rightarrow> string"

text \<open>
  The state: the \<^verbatim>\<open>WebhookEvent\<close> collection (its \<^verbatim>\<open>eventId\<close>s), the module variable
  \<^verbatim>\<open>isInitialized\<close> of the Actual service, and the external calls issued so far.
\<close>

record world =
  webhookEvents :: "string list"
  isInitialized :: bool
  calls :: "call list"

type_synonym 'a io = "world \<Rightarrow> (error + 'a) \<times> world"

definition return :: "'a \<Rightarrow> 'a io" where
  "return x = (\<lambda>w. (Inr x, w))"

definition throw :: "error \<Rightarrow> 'a io" where
  "throw e = (\<lambda>w. (Inl e, w))"

text \<open>\<^verbatim>\<open>const x = await m; f(x)\<close>.\<close>

definition await :: "'a io \<Rightarrow> ('a \<Rightarrow> 'b io) \<Rightarrow> 'b io" where
  "await m f = (\<lambda>w. case m w of (Inl e, w') \<Rightarrow> (Inl e, w') | (Inr x, w') \<Rightarrow> f x w')"

text \<open>
  \<^verbatim>\<open>try { body } catch (error) { handler } finally { finalizer }\<close>: the finalizer runs on
  every path, and an error of the finalizer replaces the outcome.
\<close>

definition try_catch_finally :: "'a io \<Rightarrow> (error \<Rightarrow> 'a io) \<Rightarrow> unit io \<Rightarrow> 'a io" where
  "try_catch_finally body handler finalizer =
     (\<lambda>w. case (case body w of (Inl e, w1) \<Rightarrow> handler e w1 | (Inr x, w1) \<Rightarrow> (Inr x, w1)) of
             (r, w2) \<Rightarrow>
               (case finalizer w2 of (Inl e', w3) \<Rightarrow> (Inl e', w3) | (Inr u, w3) \<Rightarrow> (r, w3)))"

text \<open>
  \<^verbatim>\<open>Promise.all\<close> over calls that are all issued before any is awaited: every call is
  made, and the first rejection (in the order of the array) is the outcome. Where the
  controller uses it the backend is already initialised, so no call collected here has to
  wait for \<^verbatim>\<open>init\<close>.
\<close>

fun promise_all :: "'a io list \<Rightarrow> 'a list io" where
  "promise_all [] = return []"
| "promise_all (m # ms) =
     (\<lambda>w. case m w of (r, w1) \<Rightarrow>
        (case promise_all ms w1 of (rs, w2) \<Rightarrow>
           (case r of Inl e \<Rightarrow> (Inl e, w2)
            | Inr x \<Rightarrow> (case rs of Inl e \<Rightarrow> (Inl e, w2) | Inr xs \<Rightarrow> (Inr (x # xs), w2)))))"

definition promise_all3 :: "'a io \<Rightarrow> 'b io \<Rightarrow> 'c io \<Rightarrow> ('a \<times> 'b \<times> 'c) io" where
  "promise_all3 ma mb mc =
     (\<lambda>w. case ma w of (ra, w1) \<Rightarrow>
        (case mb w1 of (rb, w2) \<Rightarrow>
           (case mc w2 of (rc, w3) \<Rightarrow>
              (case ra of Inl e \<Rightarrow> (Inl e, w3)
               | Inr a \<Rightarrow>
                   (case rb of Inl e \<Rightarrow> (Inl e, w3)
                    | Inr b \<Rightarrow>
                        (case rc of Inl e \<Rightarrow> (Inl e, w3) | Inr c \<Rightarrow> (Inr (a, b, c), w3)))))))"

definition promise_all2 :: "'a io \<Rightarrow> 'b io \<Rightarrow> ('a \<times> 'b) io" where
  "promise_all2 ma mb =
     (\<lambda>w. case ma w of (ra, w1) \<Rightarrow>
        (case mb w1 of (rb, w2) \<Rightarrow>
           (case ra of Inl e \<Rightarrow> (Inl e, w2)
            | Inr a \<Rightarrow> (case rb of Inl e \<Rightarrow> (Inl e, w2) | Inr b \<Rightarrow> (Inr (a, b), w2)))))"

text \<open>An external call: it is recorded, and it resolves or rejects as the environment says.\<close>

definition issue :: "call \<Rightarrow> world \<Rightarrow> world" where
  "issue c w = w\<lparr>calls := calls w @ [c]\<rparr>"

definition external :: "call \<Rightarrow> 'a option \<Rightarrow> error \<Rightarrow> 'a io" where
  "external c answer e =
     (\<lambda>w. case answer of None \<Rightarrow> (Inl e, issue c w) | Some x \<Rightarrow> (Inr x, issue c w))"

definition succeeded :: "bool \<Rightarrow> unit option" where
  "succeeded ok = (if ok then Some () else None)"

subsection \<open>The WebhookEvent model\<close>

text \<open>
  \<^verbatim>\<open>WebhookEvent.findOne({ eventId })\<close> and \<^verbatim>\<open>WebhookEvent.create({ eventId })\<close> on the
  collection. Either is awaited outside any \<^verbatim>\<open>try\<close>, and rejects when the database says so.
  The collection has a unique index on \<^verbatim>\<open>eventId\<close>, so \<^verbatim>\<open>create\<close> also rejects when a
  record with that id is stored; a rejected \<^verbatim>\<open>create\<close> stores nothing. The expiry of
  records after a day is not modelled.
\<close>

definition findOne :: "env \<Rightarrow> string \<Rightarrow> string option io" where
  "findOne env eventId =
     (\<lambda>w. if db_findOne env eventId
           then (Inr (find (\<lambda>e. e = eventId) (webhookEvents w)),
                 issue (WebhookEvent_findOne eventId) w)
           else (Inl MongooseError, issue (WebhookEvent_findOne eventId) w))"

definition create :: "env \<Rightarrow> string \<Rightarrow> unit io" where
  "create env eventId =
     (\<lambda>w. if db_create env eventId \<and> eventId \<notin> set (webhookEvents w)
           then (Inr (), (issue (WebhookEvent_create eventId) w)
                           \<lparr>webhookEvents := webhookEvents w @ [eventId]\<rparr>)
           else (Inl MongooseError, issue (WebhookEvent_create eventId) w))"

subsection \<open>The WAHA service\<close>

text \<open>\<^verbatim>\<open>sendSeen\<close> catches the error of its call and logs a warning: it never throws.\<close>

definition sendSeen :: "string \<Rightarrow> unit io" where
  "sendSeen chatId = (\<lambda>w. (Inr (), issue (Waha_sendSeen chatId) w))"

definition sendTextMessage :: "env \<Rightarrow> string \<Rightarrow> string \<Rightarrow> unit io" where
  "sendTextMessage env to message =
     external (Waha_sendText to message) (succeeded (waha_sendText env to message))
       (ApiError 500 ''WAHA API Error'')"

subsection \<open>The Gemini service\<close>

definition determineIntent :: "env \<Rightarrow> string \<Rightarrow> intentData io" where
  "determineIntent env text =
     (\<lambda>w. case gemini_intent env text of
             Rejected \<Rightarrow>
               (Inl (ApiError 500 ''Gemini API Error (determineIntent)''),
                issue (Gemini_generateContent DetermineIntent text) w)
           | Malformed \<Rightarrow>
               (Inl (ApiError 500 ''Gemini response validation error (determineIntent)''),
                issue (Gemini_generateContent DetermineIntent text) w)
           | Parsed validatedData \<Rightarrow>
               (Inr validatedData, issue (Gemini_generateContent DetermineIntent text) w))"

text \<open>
  The schema has \<^verbatim>\<open>category: z.enum(categoryNames)\<close> and
  \<^verbatim>\<open>source_account_name: z.enum(accountNames)\<close>: a response that names anything else is a
  \<^verbatim>\<open>ZodError\<close>. \<^verbatim>\<open>payee\<close> is a nullable string.
\<close>

definition processTransaction ::
  "env \<Rightarrow> string \<Rightarrow> string list \<Rightarrow> string list \<Rightarrow> transactionData io" where
  "processTransaction env text accountNames categoryNames =
     (\<lambda>w. case gemini_transaction env text accountNames categoryNames of
             Rejected \<Rightarrow>
               (Inl (ApiError 500 ''Gemini API Error (processTransaction)''),
                issue (Gemini_generateContent (ProcessTransaction accountNames categoryNames) text) w)
           | Malformed \<Rightarrow>
               (Inl (ApiError 500 ''Gemini response validation error''),
                issue (Gemini_generateContent (ProcessTransaction accountNames categoryNames) text) w)
           | Parsed validatedData \<Rightarrow>
               (if transactionData.category validatedData \<in> set categoryNames
                   \<and> source_account_name validatedData \<in> set accountNames
                then Inr validatedData
                else Inl (ApiError 500 ''Gemini response validation error''),
                issue (Gemini_generateContent (ProcessTransaction accountNames categoryNames) text) w))"

definition processBalanceQuery ::
  "env \<Rightarrow> string \<Rightarrow> string list \<Rightarrow> string list \<Rightarrow> queryData io" where
  "processBalanceQuery env text accountNames categoryNames =
     (\<lambda>w. case gemini_balanceQuery env text accountNames categoryNames of
             Rejected \<Rightarrow>
               (Inl (ApiError 500 ''Gemini API Error (processBalanceQuery)''),
                issue (Gemini_generateContent (ProcessBalanceQuery accountNames categoryNames) text) w)
           | Malformed \<Rightarrow>
               (Inl (ApiError 500 ''Gemini response validation error (processBalanceQuery)''),
                issue (Gemini_generateContent (ProcessBalanceQuery accountNames categoryNames) text) w)
           | Parsed validatedData \<Rightarrow>
               (Inr validatedData,
                issue (Gemini_generateContent (ProcessBalanceQuery accountNames categoryNames) text) w))"

text \<open>\<^verbatim>\<open>getAnswer\<close> returns \<^verbatim>\<open>{ content }\<close>; the model returns the content.\<close>

definition getAnswer :: "env \<Rightarrow> string \<Rightarrow> string io" where
  "getAnswer env text =
     external (Gemini_generateContent GetAnswer text) (gemini_answer env text)
       (ApiError 500 ''Gemini API Error (getAnswer)'')"

subsection \<open>The Actual service\<close>

definition init :: "env \<Rightarrow> unit io" where
  "init env =
     (\<lambda>w. if isInitialized w then (Inr (), w)
           else
             await (external Actual_init (succeeded (actual_init env))
                      (ApiError 500 ''Actual API Init Error''))
               (\<lambda>_. await (external Actual_downloadBudget (succeeded (actual_downloadBudget env))
                              (ApiError 500 ''Actual API Init Error''))
                  (\<lambda>_ w'. (Inr (), w'\<lparr>isInitialized := True\<rparr>))) w)"

text \<open>\<^verbatim>\<open>if (!isInitialized) { await init(); }\<close>, the first statement of every other function.\<close>

definition ensureInitialized :: "env \<Rightarrow> unit io" where
  "ensureInitialized env = (\<lambda>w. if \<not> isInitialized w then init env w else (Inr (), w))"

text \<open>
  The ids \<^verbatim>\<open>addTransactions\<close> returns are not used by the controller, and its third
  parameter \<^verbatim>\<open>runTransfers\<close> always has its default \<^verbatim>\<open>false\<close>.
\<close>

definition addTransactions :: "env \<Rightarrow> string \<Rightarrow> transaction list \<Rightarrow> unit io" where
  "addTransactions env accountId transactions =
     await (ensureInitialized env)
       (\<lambda>_. external (Actual_addTransactions accountId transactions)
               (succeeded (actual_addTransactions env accountId transactions))
               (ApiError 500 ''Actual API Error (addTransactions)''))"

definition getBudgetMonth :: "env \<Rightarrow> string \<Rightarrow> budget_month io" where
  "getBudgetMonth env month =
     await (ensureInitialized env)
       (\<lambda>_. external (Actual_getBudgetMonth month) (actual_getBudgetMonth env month)
               (ApiError 500 ''Actual API Error (getBudgetMonth)''))"

definition getAccounts :: "env \<Rightarrow> account list io" where
  "getAccounts env =
     await (ensureInitialized env)
       (\<lambda>_. external Actual_getAccounts (actual_getAccounts env)
               (ApiError 500 ''Actual API Error (getAccounts)''))"

definition getCategories :: "env \<Rightarrow> category list io" where
  "getCategories env =
     await (ensureInitialized env)
       (\<lambda>_. external Actual_getCategories (actual_getCategories env)
               (ApiError 500 ''Actual API Error (getCategories)''))"

definition getPayees :: "env \<Rightarrow> payee list io" where
  "getPayees env =
     await (ensureInitialized env)
       (\<lambda>_. external Actual_getPayees (actual_getPayees env)
               (ApiError 500 ''Actual API Error (getPayees)''))"

definition getAccountBalance :: "env \<Rightarrow> string \<Rightarrow> number io" where
  "getAccountBalance env accountId =
     await (ensureInitialized env)
       (\<lambda>_. external (Actual_getAccountBalance accountId) (actual_getAccountBalance env accountId)
               (ApiError 500 ''Actual API Error (getAccountBalance)''))"

text \<open>\<^verbatim>\<open>shutdown\<close> has no \<^verbatim>\<open>try\<close>: an error of \<^verbatim>\<open>actual.shutdown()\<close> leaves the flag as it is.\<close>

definition shutdown :: "env \<Rightarrow> unit io" where
  "shutdown env =
     await (external Actual_shutdown (succeeded (actual_shutdown env)) LibraryError)
       (\<lambda>_ w. (Inr (), w\<lparr>isInitialized := False\<rparr>))"

subsection \<open>The webhook controller\<close>

text \<open>
  \<^verbatim>\<open>formatIDR\<close>, lines 284 to 287: the amount is handed to the formatter of the runtime
  with the locale \<^verbatim>\<open>id-ID\<close>, the style \<^verbatim>\<open>currency\<close> and the currency \<^verbatim>\<open>IDR\<close>, and with
  no option that fixes the number of decimals.
\<close>

definition formatIDR :: "env \<Rightarrow> number \<Rightarrow> string" where
  "formatIDR env amount' = intl_format env amount'"

text \<open>
  The validated request body. \<^verbatim>\<open>payload\<close> is optional, and so is its \<^verbatim>\<open>id\<close> (a string
  when the messaging gateway sends one).
\<close>

record messagePayload =
  "from" :: string
  to :: string
  body :: string
  id :: "string option"

record request =
  event :: string
  payload :: "messagePayload option"

record response =
  statusCode :: nat
  status :: string

definition received :: response where
  "received = \<lparr>statusCode = 200, status = ''received''\<rparr>"

definition duplicate_ignored :: response where
  "duplicate_ignored = \<lparr>statusCode = 200, status = ''duplicate_ignored''\<rparr>"

text \<open>
  The guard of line 70,
  \<^verbatim>\<open>req.body.event === 'message' && req.body.payload && req.body.payload.id\<close>: the payload
  and the id when it holds. An empty string is falsy.
\<close>

definition messageEvent :: "request \<Rightarrow> (messagePayload \<times> string) option" where
  "messageEvent req =
     (if event req = ''message'' then
        (case payload req of
           None \<Rightarrow> None
         | Some messagePayload \<Rightarrow>
             (case messagePayload.id messagePayload of
                None \<Rightarrow> None
              | Some eventId \<Rightarrow> if eventId = [] then None else Some (messagePayload, eventId)))
      else None)"

text \<open>Lines 125 to 161: the transfer.\<close>

definition transferTransaction ::
  "env \<Rightarrow> account list \<Rightarrow> payee list \<Rightarrow> account \<Rightarrow> transactionData \<Rightarrow> number \<Rightarrow> string
     \<Rightarrow> string io" where
  \<open>transferTransaction env accounts payees account transactionData amountInCents today =
     (case transactionData.payee transactionData of
        None \<Rightarrow> throw TypeError
      | Some payeeName \<Rightarrow>
          (case findByName account.name accounts payeeName of
             None \<Rightarrow>
               return (''Sorry, I couldn't find a destination account named "'' @ payeeName
                       @ ''" for the transfer.'')
           | Some destinationAccount \<Rightarrow>
               (let sourceTransferPayee =
                      find (\<lambda>p. transfer_acct p = Some (account.id account)) payees;
                    destinationTransferPayee =
                      find (\<lambda>p. transfer_acct p = Some (account.id destinationAccount)) payees
                in case destinationTransferPayee of
                     None \<Rightarrow>
                       return (''Sorry, I couldn't find the internal transfer payee for account "''
                               @ account.name destinationAccount @ ''".'')
                   | Some destinationPayee \<Rightarrow>
                       (case sourceTransferPayee of
                          None \<Rightarrow>
                            return
                              (''Sorry, I couldn't find the internal transfer payee for account "''
                               @ account.name account @ ''".'')
                        | Some sourcePayee \<Rightarrow>
                            (let withdrawal =
                                   \<lparr>transaction.date = today,
                                    transaction.amount = negate (Math_abs amountInCents),
                                    transaction.payee = Some (payee.id destinationPayee),
                                    transaction.notes =
                                      (if description transactionData \<noteq> []
                                       then description transactionData
                                       else ''Transfer to '' @ account.name destinationAccount),
                                    transaction.category = None,
                                    transaction.payee_name = None,
                                    transaction.cleared = False\<rparr>;
                                 deposit =
                                   \<lparr>transaction.date = today,
                                    transaction.amount = Math_abs amountInCents,
                                    transaction.payee = Some (payee.id sourcePayee),
                                    transaction.notes =
                                      (if description transactionData \<noteq> []
                                       then description transactionData
                                       else ''Transfer from '' @ account.name account),
                                    transaction.category = None,
                                    transaction.payee_name = None,
                                    transaction.cleared = False\<rparr>
                             in await (addTransactions env (account.id account) [withdrawal])
                                  (\<lambda>_. await (addTransactions env (account.id destinationAccount)
                                                 [deposit])
                                     (\<lambda>_. return (message_to_user transactionData))))))))\<close>

text \<open>Lines 164 to 180: income or expense.\<close>

definition incomeExpenseTransaction ::
  "env \<Rightarrow> category list \<Rightarrow> account \<Rightarrow> transactionData \<Rightarrow> transactionDetail \<Rightarrow> number \<Rightarrow> string
     \<Rightarrow> string io" where
  \<open>incomeExpenseTransaction env categoryList account transactionData detail
       amountInCents today =
     (case findByName category.name categoryList (transactionData.category transactionData) of
        None \<Rightarrow>
          return (''Sorry, I couldn't find a category named "''
                  @ transactionData.category transactionData @ ''".'')
      | Some category' \<Rightarrow>
          (let newTransaction =
                 \<lparr>transaction.date = today,
                  transaction.amount =
                    (if detail = Income then Math_abs amountInCents
                     else negate (Math_abs amountInCents)),
                  transaction.payee = None,
                  transaction.notes = description transactionData,
                  transaction.category = Some (category.id category'),
                  transaction.payee_name = transactionData.payee transactionData,
                  transaction.cleared = False\<rparr>
           in await (addTransactions env (account.id account) [newTransaction])
                (\<lambda>_. return (message_to_user transactionData))))\<close>

text \<open>
  Lines 99 to 192: the transaction branch. Its value is \<^verbatim>\<open>finalResponse\<close>. The handler of
  the \<^verbatim>\<open>catch\<close> assigns \<^verbatim>\<open>finalResponse\<close> and throws the error again.
\<close>

definition transactionBranch :: "env \<Rightarrow> string \<Rightarrow> transactionDetail \<Rightarrow> string io" where
  \<open>transactionBranch env userInput detail =
     try_catch_finally
       (await (init env)
          (\<lambda>_. await (promise_all3 (getAccounts env) (getCategories env) (getPayees env))
             (\<lambda>(accounts, categories, payees).
                let accountNames = map account.name accounts;
                    categoryNames = map category.name categories
                in await (processTransaction env userInput accountNames categoryNames)
                     (\<lambda>transactionData.
                        case findByName account.name accounts
                               (source_account_name transactionData) of
                          None \<Rightarrow>
                            return (''Sorry, I couldn't find an account named "''
                                    @ source_account_name transactionData @ ''".'')
                        | Some account \<Rightarrow>
                            (let amountInCents =
                                   times100 (parseFloat (transactionData.amount transactionData));
                                 today = takeWhile (\<lambda>c. c \<noteq> CHR ''T'') (toISOString env)
                             in if detail = Transfer
                                then transferTransaction env accounts payees account
                                       transactionData amountInCents today
                                else incomeExpenseTransaction env categories account
                                       transactionData detail amountInCents today)))))
       (\<lambda>error.
          let finalResponse =
                ''Sorry, I encountered an error while processing your transaction with Actual Budget.''
          in throw error)
       (shutdown env)\<close>

text \<open>\<^verbatim>\<open>.filter(Boolean)\<close> on the lines: \<^verbatim>\<open>null\<close> and the empty string are dropped.\<close>

fun filterBoolean :: "string option list \<Rightarrow> string list" where
  "filterBoolean [] = []"
| "filterBoolean (None # ls) = filterBoolean ls"
| "filterBoolean (Some l # ls) = (if l = [] then filterBoolean ls else l # filterBoolean ls)"

text \<open>Lines 209 to 216: the callback mapped over the accounts.\<close>

definition balanceLine :: "env \<Rightarrow> account \<Rightarrow> string option io" where
  "balanceLine env acc =
     (if \<not> closed acc then
        await (getAccountBalance env (account.id acc))
          (\<lambda>balance. return (Some (''*'' @ account.name acc @ '':* ''
                                    @ formatIDR env (divide100 balance))))
      else return None)"

text \<open>Lines 205 to 230: a query of account balances.\<close>

definition accountQuery :: "env \<Rightarrow> account list \<Rightarrow> queryData \<Rightarrow> string io" where
  \<open>accountQuery env accounts queryData =
     (case queryData.name queryData of
        None \<Rightarrow> throw TypeError
      | Some wanted \<Rightarrow>
          if toLowerCase wanted = ''all'' then
            await (promise_all (map (balanceLine env) accounts))
              (\<lambda>balanceLines.
                 return (join ([''*'' @ bank_emoji @ '' All Account Balances:*'']
                               @ filterBoolean balanceLines) newline))
          else
            (case findByName account.name accounts wanted of
               Some account \<Rightarrow>
                 await (getAccountBalance env (account.id account))
                   (\<lambda>balance.
                      return (join [''*'' @ bank_emoji @ '' Account Balance:*'',
                                    ''*'' @ account.name account @ '':* ''
                                    @ formatIDR env (divide100 balance)] newline))
             | None \<Rightarrow>
                 return (join [''Sorry, I couldn't find an account named "'' @ wanted @ ''".'']
                           newline)))\<close>

text \<open>
  The test of line 236, \<^verbatim>\<open>queryData.name && queryData.name.toLowerCase() !== 'all'\<close>: the
  name when the test holds.
\<close>

definition specificName :: "queryData \<Rightarrow> string option" where
  "specificName queryData =
     (case queryData.name queryData of
        None \<Rightarrow> None
      | Some wanted \<Rightarrow> if wanted \<noteq> [] \<and> toLowerCase wanted \<noteq> ''all'' then Some wanted else None)"

text \<open>
  Lines 232 to 262: a query of the budget. The first branch reads the property
  \<^verbatim>\<open>categorGroups\<close>, the second \<^verbatim>\<open>categoryGroups\<close>.
\<close>

definition budgetQuery :: "env \<Rightarrow> queryData \<Rightarrow> string io" where
  \<open>budgetQuery env queryData =
     (let month = take 7 (toISOString env)
      in await (getBudgetMonth env month)
           (\<lambda>budgetData.
              case specificName queryData of
                Some wanted \<Rightarrow>
                  (case budgetData ''categorGroups'' of
                     None \<Rightarrow> throw TypeError
                   | Some groups \<Rightarrow>
                       (case findByName budget_category.name (concat (map categories groups))
                               wanted of
                          Some category' \<Rightarrow>
                            (let budgeted = formatIDR env (divide100 (budgeted category'));
                                 spent = formatIDR env (Math_abs (divide100 (spent category')));
                                 balance = formatIDR env (divide100 (balance category'))
                             in return (''*'' @ chart_emoji @ '' Budget for ''
                                        @ budget_category.name category' @ '':*'' @ newline
                                        @ ''- *Budgeted:* '' @ budgeted @ newline
                                        @ ''- *Spent:* '' @ spent @ newline
                                        @ ''- *Remaining:* '' @ balance))
                        | None \<Rightarrow>
                            return (''Sorry, I couldn't find a budget category named "''
                                    @ wanted @ ''".'')))
              | None \<Rightarrow>
                  (case budgetData ''categoryGroups'' of
                     None \<Rightarrow> throw TypeError
                   | Some groups \<Rightarrow>
                       return
                         (join ([''*'' @ chart_emoji @ '' Monthly Budget Summary:*'']
                                @ concat
                                    (map (\<lambda>group.
                                            if \<not> is_income group then
                                              (newline @ ''*'' @ category_group.name group @ ''*'')
                                              # map (\<lambda>cat. ''- '' @ budget_category.name cat @ '': ''
                                                           @ formatIDR env (divide100 (balance cat)))
                                                  (categories group)
                                            else [])
                                       groups))
                            newline))))\<close>

text \<open>Lines 194 to 270: the balance branch.\<close>

definition queryBalanceBranch :: "env \<Rightarrow> string \<Rightarrow> string io" where
  \<open>queryBalanceBranch env userInput =
     try_catch_finally
       (await (init env)
          (\<lambda>_. await (promise_all2 (getAccounts env) (getCategories env))
             (\<lambda>(accounts, categories).
                let accountNames = map account.name accounts;
                    categoryNames = map category.name categories
                in await (processBalanceQuery env userInput accountNames categoryNames)
                     (\<lambda>queryData.
                        if query_type queryData = Account then accountQuery env accounts queryData
                        else budgetQuery env queryData))))
       (\<lambda>error.
          let finalResponse = ''Sorry, I had trouble fetching your balance information.''
          in throw error)
       (shutdown env)\<close>

text \<open>
  \<^verbatim>\<open>handleWebhook\<close>, lines 65 to 282. \<open>Inr\<close> is the response sent; \<open>Inl\<close> is the error
  \<^verbatim>\<open>catchAsync\<close> passes on, a failed request.
\<close>

definition handleWebhook :: "env \<Rightarrow> request \<Rightarrow> response io" where
  "handleWebhook env req =
     (case messageEvent req of
        Some (messagePayload, eventId) \<Rightarrow>
          await (findOne env eventId)
            (\<lambda>existingEvent.
               case existingEvent of
                 Some _ \<Rightarrow> return duplicate_ignored
               | None \<Rightarrow>
                   await (create env eventId)
                     (\<lambda>_. await (sendSeen (from messagePayload))
                        (\<lambda>_. let userInput = body messagePayload
                              in await (determineIntent env userInput)
                                   (\<lambda>intentData.
                                      await (case intent intentData of
                                               Transaction \<Rightarrow>
                                                 transactionBranch env userInput
                                                   (transactionDetail intentData)
                                             | Query_balance \<Rightarrow> queryBalanceBranch env userInput
                                             | Question \<Rightarrow> getAnswer env userInput)
                                        (\<lambda>finalResponse.
                                           await (sendTextMessage env (from messagePayload)
                                                    finalResponse)
                                             (\<lambda>_. return received))))))
      | None \<Rightarrow> return received)"

subsection \<open>Auxiliary definitions for the statements\<close>

text \<open>The calls \<open>init\<close> issues when it succeeds: none when the flag is already set.\<close>

definition initCalls :: "world \<Rightarrow> call list" where
  "initCalls w = (if isInitialized w then [] else [Actual_init, Actual_downloadBudget])"

text \<open>The line of an account in the reply to a query of all balances (line 213).\<close>

definition accountLine :: "env \<Rightarrow> account \<Rightarrow> number \<Rightarrow> string" where
  "accountLine env acc minorUnits =
     ''*'' @ account.name acc @ '':* '' @ formatIDR env (divide100 minorUnits)"

text \<open>
  The calls to the language model and to the budgeting backend, as opposed to those to the
  database and to the messaging gateway.
\<close>

fun backendCall :: "call \<Rightarrow> bool" where
  "backendCall (WebhookEvent_findOne _) = False"
| "backendCall (WebhookEvent_create _) = False"
| "backendCall (Waha_sendSeen _) = False"
| "backendCall (Waha_sendText _ _) = False"
| "backendCall _ = True"

text \<open>
  \<open>extends w w'\<close>: from \<open>w\<close> to \<open>w'\<close> the collection of events is unchanged and only calls
  to the language model and the backend were issued. A computation is \<open>quiet\<close> when it
  only ever does that.
\<close>

definition extends :: "world \<Rightarrow> world \<Rightarrow> bool" where
  "extends w w' \<longleftrightarrow>
     webhookEvents w' = webhookEvents w
     \<and> (\<exists>cs. calls w' = calls w @ cs \<and> list_all backendCall cs)"

definition quiet :: "'a io \<Rightarrow> bool" where
  "quiet m \<longleftrightarrow> (\<forall>w. extends w (snd (m w)))"

text \<open>
  The state of a new message event once its intent has been asked for: the event is
  recorded, and the calls of lines 74 to 92 are issued.
\<close>

definition afterIntent :: "world \<Rightarrow> messagePayload \<Rightarrow> string \<Rightarrow> world" where
  "afterIntent w p eventId =
     w\<lparr>webhookEvents := webhookEvents w @ [eventId],
       calls := calls w @ [WebhookEvent_findOne eventId, WebhookEvent_create eventId,
                           Waha_sendSeen (from p),
                           Gemini_generateContent DetermineIntent (body p)]\<rparr>"

text \<open>The three branches of lines 98 to 275, by intent.\<close>

definition intentBranch :: "env \<Rightarrow> string \<Rightarrow> intentData \<Rightarrow> string io" where
  "intentBranch env userInput d =
     (case intent d of
        Transaction \<Rightarrow> transactionBranch env userInput (transactionDetail d)
      | Query_balance \<Rightarrow> queryBalanceBranch env userInput
      | Question \<Rightarrow> getAnswer env userInput)"

text \<open>A small budget, a message and an environment in which every call succeeds.\<close>

definition example_accounts :: "account list" where
  "example_accounts =
     [\<lparr>account.id = ''a1'', name = ''Cash'', closed = False\<rparr>,
      \<lparr>account.id = ''a2'', name = ''Gopay'', closed = False\<rparr>,
      \<lparr>account.id = ''a3'', name = ''Old wallet'', closed = True\<rparr>]"

definition example_categories :: "category list" where
  "example_categories =
     [\<lparr>category.id = ''c1'', name = ''Groceries''\<rparr>,
      \<lparr>category.id = ''c2'', name = ''Salary''\<rparr>]"

definition example_payees :: "payee list" where
  "example_payees =
     [\<lparr>payee.id = ''p1'', name = ''Cash'', transfer_acct = Some ''a1''\<rparr>,
      \<lparr>payee.id = ''p2'', name = ''Gopay'', transfer_acct = Some ''a2''\<rparr>,
      \<lparr>payee.id = ''p3'', name = ''Warung'', transfer_acct = None\<rparr>]"

definition example_groups :: "category_group list" where
  "example_groups =
     [\<lparr>category_group.name = ''Usual Expenses'', is_income = False,
       categories = [\<lparr>budget_category.name = ''Groceries'', budgeted = Num 200000000,
                      spent = Num (- 50000000), balance = Num 150000000\<rparr>]\<rparr>]"

definition example_transactionData :: transactionData where
  "example_transactionData =
     \<lparr>description = ''Gaji'', amount = ''5000000'', category = ''Salary'', payee = Some ''Kantor'',
      source_account_name = ''Cash'', message_to_user = ''Recorded.''\<rparr>"

text \<open>
  The answers, on the amounts of the examples, of a formatter whose locale data give the
  rupiah no decimals: \<^verbatim>\<open>Rp\<close>, a no-break space (U+00A0) and the grouped whole number, a half
  rounded up.
\<close>

definition example_intl_format :: "number \<Rightarrow> string" where
  "example_intl_format x =
     (if x = Num 150000 then ''Rp'' @ [CHR 0xC2, CHR 0xA0] @ ''150.000''
      else if x = Num (51 / 2) then ''Rp'' @ [CHR 0xC2, CHR 0xA0] @ ''26''
      else if x = Num 0 then ''Rp'' @ [CHR 0xC2, CHR 0xA0] @ ''0''
      else [])"

definition example_expense :: transactionData where
  "example_expense =
     \<lparr>description = ''Beras'', amount = ''19.99'', category = ''Groceries'', payee = None,
      source_account_name = ''Gopay'', message_to_user = ''Noted.''\<rparr>"

definition example_env :: env where
  "example_env =
     \<lparr>db_findOne = (\<lambda>eventId. True),
      db_create = (\<lambda>eventId. True),
      gemini_intent = (\<lambda>text. Parsed \<lparr>intent = Question, transactionDetail = Expense\<rparr>),
      gemini_transaction = (\<lambda>text accountNames categoryNames. Parsed example_transactionData),
      gemini_balanceQuery =
        (\<lambda>text accountNames categoryNames. Parsed \<lparr>query_type = Account, name = Some ''All''\<rparr>),
      gemini_answer = (\<lambda>text. Some ''Hello!''),
      waha_sendText = (\<lambda>to message. True),
      actual_init = True,
      actual_downloadBudget = True,
      actual_getAccounts = Some example_accounts,
      actual_getCategories = Some example_categories,
      actual_getPayees = Some example_payees,
      actual_getAccountBalance =
        (\<lambda>accountId. if accountId = ''a1'' then Some (Num 15000000) else Some (Num 2550)),
      actual_getBudgetMonth = (\<lambda>month. Some [''categoryGroups'' \<mapsto> example_groups]),
      actual_addTransactions = (\<lambda>accountId transactions. True),
      actual_shutdown = True,
      toISOString = ''2026-11-02T08:30:00.000Z'',
      intl_format = example_intl_format\<rparr>"

definition example_payload :: messagePayload where
  "example_payload = \<lparr>from = ''628123@c.us'', to = ''628999@c.us'', body = ''Halo'', id = Some ''m1''\<rparr>"

definition example_request :: request where
  "example_request = \<lparr>event = ''message'', payload = Some example_payload\<rparr>"

definition example_world :: world where
  "example_world = \<lparr>webhookEvents = [], isInitialized = False, calls = []\<rparr>"

text \<open>Variations: the intent is not obtained; a transaction; a query of balances.\<close>

definition rejecting_env :: env where
  "rejecting_env = example_env\<lparr>gemini_intent := (\<lambda>text. Rejected)\<rparr>"

definition transaction_env :: "transactionDetail \<Rightarrow> transactionData \<Rightarrow> env" where
  "transaction_env detail extracted =
     example_env
       \<lparr>gemini_intent := (\<lambda>text. Parsed \<lparr>intent = Transaction, transactionDetail = detail\<rparr>),
        gemini_transaction := (\<lambda>text accountNames categoryNames. Parsed extracted)\<rparr>"

definition balance_env :: "queryData \<Rightarrow> env" where
  "balance_env extracted =
     example_env
       \<lparr>gemini_intent := (\<lambda>text. Parsed \<lparr>intent = Query_balance, transactionDetail = Expense\<rparr>),
        gemini_balanceQuery := (\<lambda>text accountNames categoryNames. Parsed extracted)\<rparr>"

definition example_transfer :: transactionData where
  "example_transfer =
     \<lparr>description = [], amount = ''250000'', category = ''Groceries'', payee = Some ''gopay'',
      source_account_name = ''Cash'', message_to_user = ''Moved.''\<rparr>"

text \<open>The backend has no transfer payee for the account Gopay.\<close>

definition cash_payee_only_env :: env where
  "cash_payee_only_env =
     (transaction_env Transfer example_transfer)
       \<lparr>actual_getPayees :=
          Some [\<lparr>payee.id = ''p1'', name = ''Cash'', transfer_acct = Some ''a1''\<rparr>]\<rparr>"

text \<open>The backend rejects the request for the accounts.\<close>

definition no_accounts_env :: env where
  "no_accounts_env =
     (transaction_env Expense example_transactionData)\<lparr>actual_getAccounts := None\<rparr>"

section \<open>Properties\<close>

lemmas io_defs = return_def throw_def await_def try_catch_finally_def promise_all3_def
  promise_all2_def issue_def external_def succeeded_def

lemmas service_defs = findOne_def create_def sendSeen_def sendTextMessage_def determineIntent_def
  processTransaction_def processBalanceQuery_def getAnswer_def init_def ensureInitialized_def
  addTransactions_def getBudgetMonth_def getAccounts_def getCategories_def getPayees_def
  getAccountBalance_def shutdown_def

lemmas example_defs = example_accounts_def example_categories_def example_payees_def
  example_groups_def example_transactionData_def example_expense_def example_env_def example_payload_def
  example_request_def example_world_def rejecting_env_def transaction_env_def balance_env_def
  example_transfer_def cash_payee_only_env_def no_accounts_env_def

subsection \<open>Numbers of the examples\<close>

lemma floor_rat_numeral [simp]:
  "\<lfloor>numeral a / numeral b :: rat\<rfloor> = numeral a div numeral b"
  "\<lfloor>1 / numeral b :: rat\<rfloor> = 1 div numeral b"
  by (metis floor_divide_of_int_eq of_int_numeral,
      metis floor_divide_of_int_eq of_int_numeral of_int_1)

lemma pow2_positive: "0 < pow2 e"
  by (simp add: pow2_def)

text \<open>
  The double nearest to \<open>q\<close> and to \<open>-q\<close>, from the exponent \<open>e\<close> of \<open>q\<close>, the unit
  in the last place \<open>2^u\<close> and the rounded significand \<open>m\<close>.
\<close>

lemma roundToDouble_eval:
  assumes "0 < q" and "exponentOf q = e" and "max e (- 1022) - 52 = u"
    and "roundHalfEven (q / pow2 u) = m"
  shows "roundToDouble q =
           (if pow2 1024 \<le> of_int m * pow2 u then PosInfinity
            else if m = 0 then Num 0 else Num (of_int m * pow2 u))"
    and "roundToDouble (- q) =
           (if pow2 1024 \<le> of_int m * pow2 u then NegInfinity
            else if m = 0 then NegZero else Num (- (of_int m * pow2 u)))"
proof -
  define r where "r = of_int m * pow2 u"
  have z: "r = 0 \<longleftrightarrow> m = 0"
    using pow2_positive [of u] by (simp add: r_def)
  have a: "\<bar>q\<bar> = q" "\<bar>- q\<bar> = q" "q \<noteq> 0" "\<not> q < 0" using assms(1) by simp_all
  show "roundToDouble q =
           (if pow2 1024 \<le> of_int m * pow2 u then PosInfinity
            else if m = 0 then Num 0 else Num (of_int m * pow2 u))"
    unfolding roundToDouble_def Let_def a assms(2) assms(3) assms(4) r_def [symmetric]
    using a z by simp
  show "roundToDouble (- q) =
           (if pow2 1024 \<le> of_int m * pow2 u then NegInfinity
            else if m = 0 then NegZero else Num (- (of_int m * pow2 u)))"
    unfolding roundToDouble_def Let_def a assms(2) assms(3) assms(4) r_def [symmetric]
    using a z assms(1) by simp
qed

lemmas double_eval = exponentOf_def bitLength.simps roundHalfEven_def pow2_def Let_def

lemmas parse_eval = parseFloat_def trimStart.simps whiteSpace_def startsWith_def isDigit_def
  digitValue_def natOfDigits_def pow10_def Let_def

text \<open>
  Whole numbers below \<open>2^53\<close> are doubles, and so are \<open>25.5\<close> and \<open>2.5\<close>. \<open>19.99\<close> and
  \<open>0.01\<close> are not, and neither is a hundred times the double nearest to \<open>19.99\<close>: the
  product is \<open>1999 - 2^-42\<close>, which JavaScript prints as \<open>1998.9999999999998\<close>. Of
  \<open>2^53 + 1\<close> and \<open>2^53 + 3\<close>, half way between two doubles, the nearest is the one with
  an even significand.
\<close>

lemma roundToDouble_examples:
  "roundToDouble 1 = Num 1"
  "roundToDouble 5 = Num 5"
  "roundToDouble (- 5) = Num (- 5)"
  "roundToDouble 500 = Num 500"
  "roundToDouble (- 500) = Num (- 500)"
  "roundToDouble 250000 = Num 250000"
  "roundToDouble (- 250000) = Num (- 250000)"
  "roundToDouble 25000000 = Num 25000000"
  "roundToDouble (- 25000000) = Num (- 25000000)"
  "roundToDouble 5000000 = Num 5000000"
  "roundToDouble 500000000 = Num 500000000"
  "roundToDouble 150000 = Num 150000"
  "roundToDouble (51 / 2) = Num (51 / 2)"
  "roundToDouble (5 / 2) = Num (5 / 2)"
  "roundToDouble (1 / 2) = Num (1 / 2)"
  "roundToDouble (1 / 100) = Num (5764607523034235 / 576460752303423488)"
  "roundToDouble (1999 / 100) = Num (5626684784446013 / 281474976710656)"
  "roundToDouble (140667119611150325 / 70368744177664) = Num (8791694975696895 / 4398046511104)"
  "roundToDouble (2 ^ 53 + 1) = Num (2 ^ 53)"
  "roundToDouble (2 ^ 53 + 3) = Num (2 ^ 53 + 4)"
  using roundToDouble_eval(1) [of 1 0 "- 52" "2 ^ 52"]
    roundToDouble_eval [of 5 2 "- 50" "5 * 2 ^ 50"]
    roundToDouble_eval [of 500 8 "- 44" "500 * 2 ^ 44"]
    roundToDouble_eval [of 250000 17 "- 35" "250000 * 2 ^ 35"]
    roundToDouble_eval [of 25000000 24 "- 28" "25000000 * 2 ^ 28"]
    roundToDouble_eval(1) [of 5000000 22 "- 30" "5000000 * 2 ^ 30"]
    roundToDouble_eval(1) [of 500000000 28 "- 24" "500000000 * 2 ^ 24"]
    roundToDouble_eval(1) [of 150000 17 "- 35" "150000 * 2 ^ 35"]
    roundToDouble_eval(1) [of "51 / 2" 4 "- 48" "51 * 2 ^ 47"]
    roundToDouble_eval(1) [of "5 / 2" 1 "- 51" "5 * 2 ^ 50"]
    roundToDouble_eval(1) [of "1 / 2" "- 1" "- 53" "2 ^ 52"]
    roundToDouble_eval(1) [of "1 / 100" "- 7" "- 59" 5764607523034235]
    roundToDouble_eval(1) [of "1999 / 100" 4 "- 48" 5626684784446013]
    roundToDouble_eval(1) [of "140667119611150325 / 70368744177664" 10 "- 42" 8791694975696895]
    roundToDouble_eval(1) [of "2 ^ 53 + 1" 53 1 "2 ^ 52"]
    roundToDouble_eval(1) [of "2 ^ 53 + 3" 53 1 "2 ^ 52 + 2"]
  by (simp_all add: double_eval)

text \<open>
  \<^verbatim>\<open>parseFloat\<close> on the amounts of the examples; behind a no-break space and a space, with
  a sign and an exponent, and in front of other text; and on strings that are no number, or
  only begin with one.
\<close>

lemma parseFloat_examples:
  "parseFloat ''5000000'' = Num 5000000"
  "parseFloat ''250000'' = Num 250000"
  "parseFloat ''-250000'' = Num (- 250000)"
  "parseFloat ''-5'' = Num (- 5)"
  "parseFloat ''19.99'' = Num (5626684784446013 / 281474976710656)"
  "parseFloat ([CHR 0xC2, CHR 0xA0] @ '' +5e2 rupiah'') = Num 500"
  "parseFloat ''25e-1'' = Num (5 / 2)"
  "parseFloat ''.5.5'' = Num (1 / 2)"
  "parseFloat ''5.'' = Num 5"
  "parseFloat ''1e'' = Num 1"
  "parseFloat ''.'' = NaN"
  "parseFloat ''lima'' = NaN"
  "parseFloat ''-0'' = NegZero"
  "parseFloat ''-Infinity'' = NegInfinity"
  by (simp_all add: parse_eval roundToDouble_examples)

lemma times100_examples:
  "times100 (Num 5000000) = Num 500000000"
  "times100 (Num 250000) = Num 25000000"
  "times100 (Num (- 250000)) = Num (- 25000000)"
  "times100 (Num (- 5)) = Num (- 500)"
  "times100 (Num (5626684784446013 / 281474976710656)) = Num (8791694975696895 / 4398046511104)"
  by (simp_all add: roundToDouble_examples)

lemma divide100_examples:
  "divide100 (Num 15000000) = Num 150000"
  "divide100 (Num 2550) = Num (51 / 2)"
  "divide100 (Num 1) = Num (5764607523034235 / 576460752303423488)"
  by (simp_all add: roundToDouble_examples)

lemmas eval_defs = findByName_def toLowerCase_def toLowerCase_char_def upper_letters_def
  lower_letters_def initCalls_def parseFloat_examples roundToDouble_examples formatIDR_def
  example_intl_format_def

lemma find_present: "x \<in> set xs \<Longrightarrow> find (\<lambda>e. e = x) xs = Some x"
  by (induction xs) auto

lemma find_absent: "x \<notin> set xs \<Longrightarrow> find (\<lambda>e. e = x) xs = None"
  by (simp add: find_None_iff)

subsection \<open>Branches issue backend calls only\<close>

lemma extends_refl: "extends w w"
  by (simp add: extends_def)

lemma extends_trans: "extends w w1 \<Longrightarrow> extends w1 w2 \<Longrightarrow> extends w w2"
  by (auto simp add: extends_def)

lemma extends_flag: "extends w w1 \<Longrightarrow> extends w (w1\<lparr>isInitialized := b\<rparr>)"
  by (simp add: extends_def)

lemma extends_issue: "backendCall c \<Longrightarrow> extends w (issue c w)"
  by (simp add: extends_def issue_def)

lemma quietD: "quiet m \<Longrightarrow> m w = (r, w1) \<Longrightarrow> extends w w1"
  by (metis quiet_def snd_conv)

lemma quiet_return: "quiet (return x)"
  by (simp add: quiet_def return_def extends_refl)

lemma quiet_throw: "quiet (throw e)"
  by (simp add: quiet_def throw_def extends_refl)

lemma quiet_external: "backendCall c \<Longrightarrow> quiet (external c answer e)"
  by (simp add: quiet_def external_def extends_issue split: option.splits)

lemma quiet_await:
  assumes "quiet m" and "\<And>x. quiet (f x)"
  shows "quiet (await m f)"
  unfolding quiet_def
proof
  fix w
  obtain r w1 where m: "m w = (r, w1)" by (cases "m w")
  have 1: "extends w w1" using assms(1) m by (rule quietD)
  show "extends w (snd (await m f w))"
  proof (cases r)
    case (Inl e) with m 1 show ?thesis by (simp add: await_def)
  next
    case (Inr x)
    obtain r2 w2 where f: "f x w1 = (r2, w2)" by (cases "f x w1")
    have "extends w1 w2" using assms(2) f by (rule quietD)
    with 1 have "extends w w2" by (rule extends_trans)
    with Inr m f show ?thesis by (simp add: await_def)
  qed
qed

lemma quiet_try_catch_finally:
  assumes "quiet b" and "\<And>e. quiet (h e)" and "quiet fin"
  shows "quiet (try_catch_finally b h fin)"
  unfolding quiet_def
proof
  fix w
  obtain r w1 where b: "b w = (r, w1)" by (cases "b w")
  have 1: "extends w w1" using assms(1) b by (rule quietD)
  show "extends w (snd (try_catch_finally b h fin w))"
  proof (cases r)
    case (Inl e)
    obtain r2 w2 where c: "h e w1 = (r2, w2)" by (cases "h e w1")
    obtain r3 w3 where f: "fin w2 = (r3, w3)" by (cases "fin w2")
    have "extends w1 w2" using assms(2) c by (rule quietD)
    moreover have "extends w2 w3" using assms(3) f by (rule quietD)
    ultimately have "extends w w3" using 1 by (blast intro: extends_trans)
    with Inl b c f show ?thesis
      by (simp add: try_catch_finally_def split: sum.splits)
  next
    case (Inr x)
    obtain r3 w3 where f: "fin w1 = (r3, w3)" by (cases "fin w1")
    have "extends w1 w3" using assms(3) f by (rule quietD)
    with 1 have "extends w w3" by (rule extends_trans)
    with Inr b f show ?thesis
      by (simp add: try_catch_finally_def split: sum.splits)
  qed
qed

lemma quiet_promise_all2:
  assumes "quiet ma" and "quiet mb"
  shows "quiet (promise_all2 ma mb)"
  unfolding quiet_def
proof
  fix w
  obtain ra w1 where a: "ma w = (ra, w1)" by (cases "ma w")
  obtain rb w2 where b: "mb w1 = (rb, w2)" by (cases "mb w1")
  have "extends w w1" using assms(1) a by (rule quietD)
  moreover have "extends w1 w2" using assms(2) b by (rule quietD)
  ultimately have "extends w w2" by (rule extends_trans)
  with a b show "extends w (snd (promise_all2 ma mb w))"
    by (simp add: promise_all2_def split: sum.splits)
qed

lemma quiet_promise_all3:
  assumes "quiet ma" and "quiet mb" and "quiet mc"
  shows "quiet (promise_all3 ma mb mc)"
  unfolding quiet_def
proof
  fix w
  obtain ra w1 where a: "ma w = (ra, w1)" by (cases "ma w")
  obtain rb w2 where b: "mb w1 = (rb, w2)" by (cases "mb w1")
  obtain rc w3 where c: "mc w2 = (rc, w3)" by (cases "mc w2")
  have "extends w w1" using assms(1) a by (rule quietD)
  moreover have "extends w1 w2" using assms(2) b by (rule quietD)
  ultimately have "extends w w2" by (rule extends_trans)
  moreover have "extends w2 w3" using assms(3) c by (rule quietD)
  ultimately have "extends w w3" by (rule extends_trans)
  with a b c show "extends w (snd (promise_all3 ma mb mc w))"
    by (simp add: promise_all3_def split: sum.splits)
qed

lemma quiet_promise_all:
  assumes "\<And>m. m \<in> set ms \<Longrightarrow> quiet m"
  shows "quiet (promise_all ms)"
  using assms
proof (induction ms)
  case Nil
  then show ?case by (simp add: quiet_return)
next
  case (Cons m ms)
  have qm: "quiet m" using Cons.prems by simp
  have qms: "quiet (promise_all ms)" using Cons by simp
  show ?case
    unfolding quiet_def
  proof
    fix w
    obtain r w1 where a: "m w = (r, w1)" by (cases "m w")
    obtain rs w2 where b: "promise_all ms w1 = (rs, w2)" by (cases "promise_all ms w1")
    have "extends w w1" using qm a by (rule quietD)
    moreover have "extends w1 w2" using qms b by (rule quietD)
    ultimately have "extends w w2" by (rule extends_trans)
    with a b show "extends w (snd (promise_all (m # ms) w))"
      by (simp split: sum.splits)
  qed
qed

lemma quiet_init: "quiet (init env)"
  by (auto simp add: quiet_def init_def io_defs extends_def split: option.splits)

lemma quiet_ensureInitialized: "quiet (ensureInitialized env)"
  using quiet_init [of env] by (simp add: quiet_def ensureInitialized_def extends_refl)

lemma quiet_shutdown: "quiet (shutdown env)"
  by (auto simp add: quiet_def shutdown_def io_defs extends_def split: option.splits)

lemmas quiet_intros = quiet_return quiet_throw quiet_external quiet_await quiet_try_catch_finally
  quiet_promise_all2 quiet_promise_all3 quiet_promise_all quiet_init quiet_ensureInitialized
  quiet_shutdown


lemma quiet_actual:
  "quiet (addTransactions env a ts)" "quiet (getBudgetMonth env month)" "quiet (getAccounts env)"
  "quiet (getCategories env)" "quiet (getPayees env)" "quiet (getAccountBalance env a)"
  by (simp_all add: addTransactions_def getBudgetMonth_def getAccounts_def getCategories_def
      getPayees_def getAccountBalance_def quiet_intros)

lemma quiet_gemini:
  "quiet (processTransaction env u as cs)" "quiet (processBalanceQuery env u as cs)"
  "quiet (getAnswer env u)"
  by (auto simp add: quiet_def processTransaction_def processBalanceQuery_def getAnswer_def
      external_def issue_def extends_def split: generated.splits option.splits)

lemma quiet_transferTransaction:
  "quiet (transferTransaction env accounts payees account td amountInCents today)"
  by (simp add: transferTransaction_def Let_def quiet_intros quiet_actual split: option.split)

lemma quiet_incomeExpenseTransaction:
  "quiet (incomeExpenseTransaction env cats account td detail amountInCents today)"
  by (simp add: incomeExpenseTransaction_def Let_def quiet_intros quiet_actual split: option.split)

lemma quiet_transactionBranch: "quiet (transactionBranch env u detail)"
  unfolding transactionBranch_def
  by (intro quiet_intros quiet_actual)
     (simp_all add: Let_def quiet_intros quiet_gemini quiet_transferTransaction
       quiet_incomeExpenseTransaction split: option.split prod.split)

lemma quiet_balanceLine: "quiet (balanceLine env acc)"
  by (simp add: balanceLine_def quiet_intros quiet_actual)

lemma quiet_balanceLines: "quiet (promise_all (map (balanceLine env) accounts))"
  by (rule quiet_promise_all) (auto simp add: quiet_balanceLine)

lemma quiet_accountQuery: "quiet (accountQuery env accounts q)"
  by (simp add: accountQuery_def quiet_intros quiet_actual quiet_balanceLines
      split: option.split)

lemma quiet_budgetQuery: "quiet (budgetQuery env q)"
  by (simp add: budgetQuery_def Let_def quiet_intros quiet_actual split: option.split)

lemma quiet_queryBalanceBranch: "quiet (queryBalanceBranch env u)"
  unfolding queryBalanceBranch_def
  by (intro quiet_intros quiet_actual)
     (simp_all add: Let_def quiet_intros quiet_gemini quiet_accountQuery quiet_budgetQuery
       split: option.split prod.split)

lemma extends_last:
  assumes "extends w w'" and "calls w \<noteq> []" and "backendCall (last (calls w))"
  shows "calls w' \<noteq> [] \<and> backendCall (last (calls w'))"
proof -
  from assms(1) obtain cs where cs: "calls w' = calls w @ cs" "list_all backendCall cs"
    by (auto simp add: extends_def)
  show ?thesis
  proof (cases "cs = []")
    case True
    with cs assms show ?thesis by simp
  next
    case False
    then have "last cs \<in> set cs" by simp
    with cs(2) have "backendCall (last cs)" by (simp add: list_all_iff)
    with cs False show ?thesis by simp
  qed
qed

subsection \<open>A new message event\<close>

text \<open>The unique index: a record whose id is stored is not created again.\<close>

lemma create_duplicate:
  "eventId \<in> set (webhookEvents w) \<Longrightarrow>
     create env eventId w
       = (Inl MongooseError, w\<lparr>calls := calls w @ [WebhookEvent_create eventId]\<rparr>)"
  by (simp add: create_def issue_def)

lemma handleWebhook_lookup_fails:
  assumes "event req = ''message''" and "payload req = Some p"
    and "messagePayload.id p = Some eventId" and "eventId \<noteq> []"
    and "\<not> db_findOne env eventId"
  shows "handleWebhook env req w =
     (Inl MongooseError, w\<lparr>calls := calls w @ [WebhookEvent_findOne eventId]\<rparr>)"
  using assms by (simp add: handleWebhook_def messageEvent_def findOne_def io_defs)

lemma handleWebhook_create_fails:
  assumes "event req = ''message''" and "payload req = Some p"
    and "messagePayload.id p = Some eventId" and "eventId \<noteq> []"
    and "eventId \<notin> set (webhookEvents w)"
    and "db_findOne env eventId" and "\<not> db_create env eventId"
  shows "handleWebhook env req w =
     (Inl MongooseError,
      w\<lparr>calls := calls w @ [WebhookEvent_findOne eventId, WebhookEvent_create eventId]\<rparr>)"
  using assms
  by (simp add: handleWebhook_def messageEvent_def findOne_def create_def find_absent io_defs)

text \<open>A statement about a new event whose record is stored extends to a failing database.\<close>

lemma handleWebhook_database:
  assumes "event req = ''message''" and "payload req = Some p"
    and "messagePayload.id p = Some eventId" and "eventId \<noteq> []"
    and "eventId \<notin> set (webhookEvents w)"
    and "db_findOne env eventId \<Longrightarrow> db_create env eventId \<Longrightarrow> handleWebhook env req w = result"
  shows "handleWebhook env req w =
     (if \<not> db_findOne env eventId
      then (Inl MongooseError, w\<lparr>calls := calls w @ [WebhookEvent_findOne eventId]\<rparr>)
      else if \<not> db_create env eventId
      then (Inl MongooseError,
            w\<lparr>calls := calls w @ [WebhookEvent_findOne eventId, WebhookEvent_create eventId]\<rparr>)
      else result)"
  using handleWebhook_lookup_fails [OF assms(1-4), of env w]
    handleWebhook_create_fails [OF assms(1-5), of env] assms(6)
  by simp

lemma handleWebhook_fresh:
  assumes "event req = ''message''" and "payload req = Some p"
    and "messagePayload.id p = Some eventId" and "eventId \<noteq> []"
    and "eventId \<notin> set (webhookEvents w)"
    and "db_findOne env eventId" and "db_create env eventId"
  shows "handleWebhook env req w =
     (case gemini_intent env (body p) of
        Rejected \<Rightarrow>
          (Inl (ApiError 500 ''Gemini API Error (determineIntent)''), afterIntent w p eventId)
      | Malformed \<Rightarrow>
          (Inl (ApiError 500 ''Gemini response validation error (determineIntent)''),
           afterIntent w p eventId)
      | Parsed d \<Rightarrow>
          (case intentBranch env (body p) d (afterIntent w p eventId) of
             (Inl e, w4) \<Rightarrow> (Inl e, w4)
           | (Inr finalResponse, w4) \<Rightarrow>
               (if waha_sendText env (from p) finalResponse
                then (Inr received,
                      w4\<lparr>calls := calls w4 @ [Waha_sendText (from p) finalResponse]\<rparr>)
                else (Inl (ApiError 500 ''WAHA API Error''),
                      w4\<lparr>calls := calls w4 @ [Waha_sendText (from p) finalResponse]\<rparr>))))"
  using assms
  by (auto simp add: handleWebhook_def messageEvent_def findOne_def create_def sendSeen_def
      determineIntent_def sendTextMessage_def find_absent io_defs afterIntent_def intentBranch_def
      Let_def split: generated.splits prod.splits sum.splits intent.splits)

lemma quiet_intentBranch: "quiet (intentBranch env u d)"
  by (cases "intent d")
     (simp_all add: intentBranch_def quiet_transactionBranch quiet_queryBalanceBranch quiet_gemini)

subsection \<open>The lines of the open accounts\<close>

lemma balanceLines_run:
  assumes "isInitialized w"
    and "\<forall>acc \<in> set accounts. \<not> closed acc
           \<longrightarrow> actual_getAccountBalance env (account.id acc) = Some (minorUnits acc)"
  shows "promise_all (map (balanceLine env) accounts) w =
     (Inr (map (\<lambda>acc. if closed acc then None else Some (accountLine env acc (minorUnits acc)))
             accounts),
      w\<lparr>calls := calls w @ map (\<lambda>acc. Actual_getAccountBalance (account.id acc))
                             (filter (\<lambda>acc. \<not> closed acc) accounts)\<rparr>)"
  using assms
proof (induction accounts arbitrary: w)
  case Nil
  then show ?case by (simp add: return_def)
next
  case (Cons acc accounts)
  let ?w1 = "if closed acc then w else w\<lparr>calls := calls w @ [Actual_getAccountBalance (account.id acc)]\<rparr>"
  have 1: "balanceLine env acc w =
      (Inr (if closed acc then None else Some (accountLine env acc (minorUnits acc))), ?w1)"
    using Cons.prems
    by (simp add: balanceLine_def getAccountBalance_def ensureInitialized_def io_defs
        accountLine_def)
  have "isInitialized ?w1" using Cons.prems by simp
  from Cons.IH [OF this] Cons.prems(2) 1 show ?case
    by simp
qed

lemma filterBoolean_lines:
  "filterBoolean
     (map (\<lambda>acc. if closed acc then None else Some (accountLine env acc (minorUnits acc)))
        accounts)
   = map (\<lambda>acc. accountLine env acc (minorUnits acc)) (filter (\<lambda>acc. \<not> closed acc) accounts)"
  by (induction accounts) (simp_all add: accountLine_def)

lemma join_lines: "join (h # ls) [c] = h @ concat (map (\<lambda>l. c # l) ls)"
  by (induction ls arbitrary: h) simp_all

subsection \<open>Name resolution (C8)\<close>



subsection \<open>Events that are not processed (C9)\<close>

text \<open>
  Claim C9. When the event is not \<open>message\<close>, or there is no payload, or the payload has no
  id (or an empty one), the handler answers 200 with status \<open>received\<close> and the state is
  what it was: no record is read or created and no external call is issued.
\<close>

theorem not_a_message_event:
  assumes "event req \<noteq> ''message'' \<or> payload req = None
           \<or> (\<exists>p. payload req = Some p
                  \<and> (messagePayload.id p = None \<or> messagePayload.id p = Some []))"
  shows "handleWebhook env req w = (Inr \<lparr>statusCode = 200, status = ''received''\<rparr>, w)"
  using assms by (auto simp add: handleWebhook_def messageEvent_def return_def received_def)

theorem not_a_message_event_witness:
  "handleWebhook example_env (example_request\<lparr>event := ''session.status''\<rparr>) example_world
     = (Inr \<lparr>statusCode = 200, status = ''received''\<rparr>,
        \<lparr>webhookEvents = [], isInitialized = False, calls = []\<rparr>)
   \<and> handleWebhook example_env
        (example_request\<lparr>payload := Some (example_payload\<lparr>id := None\<rparr>)\<rparr>) example_world
     = (Inr \<lparr>statusCode = 200, status = ''received''\<rparr>,
        \<lparr>webhookEvents = [], isInitialized = False, calls = []\<rparr>)"
  using not_a_message_event
          [of "example_request\<lparr>event := ''session.status''\<rparr>" example_env example_world]
        not_a_message_event
          [of "example_request\<lparr>payload := Some (example_payload\<lparr>id := None\<rparr>)\<rparr>"
              example_env example_world]
  by (simp add: example_request_def example_world_def)

subsection \<open>The branches when every call succeeds\<close>

lemma transactionBranch_succeeds:
  assumes ini: "actual_init env" "actual_downloadBudget env" "actual_shutdown env"
    and fetch: "actual_getAccounts env = Some accounts" "actual_getCategories env = Some cats"
      "actual_getPayees env = Some payees"
    and tx: "gemini_transaction env u (map account.name accounts) (map category.name cats)
               = Parsed td"
      "transactionData.category td \<in> set (map category.name cats)"
      "source_account_name td \<in> set (map account.name accounts)"
    and post: "\<And>accountId transactions. actual_addTransactions env accountId transactions"
    and pay: "detail = Transfer \<Longrightarrow> transactionData.payee td \<noteq> None"
  shows "\<exists>reply. fst (transactionBranch env u detail w) = Inr reply"
proof -
  have valid: "transactionData.category td \<in> category.name ` set cats"
    "source_account_name td \<in> account.name ` set accounts"
    using tx(2,3) by simp_all
  from tx(3) have "findByName account.name accounts (source_account_name td) \<noteq> None"
    by (auto simp add: findByName_def find_None_iff)
  then obtain account where
    src: "findByName account.name accounts (source_account_name td) = Some account"
    by blast
  note defs = fetch tx(1) src valid ini post io_defs service_defs transactionBranch_def
    transferTransaction_def incomeExpenseTransaction_def Let_def
  show ?thesis
  proof (cases "detail = Transfer")
    case True
    with pay obtain payeeName where pn: "transactionData.payee td = Some payeeName"
      by auto
    show ?thesis
    proof (cases "findByName account.name accounts payeeName")
      case None
      with True pn show ?thesis
        by (cases "isInitialized w") (simp_all add: defs)
    next
      case (Some dst)
      show ?thesis
      proof (cases "find (\<lambda>q. transfer_acct q = Some (account.id dst)) payees")
        case None
        with Some True pn show ?thesis
          by (cases "isInitialized w") (simp_all add: defs)
      next
        case dp: (Some destinationPayee)
        show ?thesis
        proof (cases "find (\<lambda>q. transfer_acct q = Some (account.id account)) payees")
          case None
          with dp Some True pn show ?thesis
            by (cases "isInitialized w") (simp_all add: defs)
        next
          case sp: (Some sourcePayee)
          with dp Some True pn show ?thesis
            by (cases "isInitialized w") (simp_all add: defs)
        qed
      qed
    qed
  next
    case False
    show ?thesis
    proof (cases "findByName category.name cats (transactionData.category td)")
      case None
      with False show ?thesis
        by (cases "isInitialized w") (simp_all add: defs)
    next
      case (Some category')
      with False show ?thesis
        by (cases "isInitialized w") (simp_all add: defs)
    qed
  qed
qed

lemma accountQuery_succeeds:
  assumes "isInitialized w"
    and nm: "queryData.name query \<noteq> None"
    and bal: "\<And>accountId. actual_getAccountBalance env accountId \<noteq> None"
  shows "\<exists>reply w'. accountQuery env accounts query w = (Inr reply, w') \<and> isInitialized w'"
proof -
  from nm obtain wanted where wanted: "queryData.name query = Some wanted"
    by auto
  show ?thesis
  proof (cases "toLowerCase wanted = ''all''")
    case True
    have "\<forall>acc \<in> set accounts. \<not> closed acc
        \<longrightarrow> actual_getAccountBalance env (account.id acc)
              = Some (the (actual_getAccountBalance env (account.id acc)))"
      using bal by simp
    from balanceLines_run [OF assms(1) this] True wanted show ?thesis
      using assms(1) by (simp add: accountQuery_def await_def return_def)
  next
    case False
    show ?thesis
    proof (cases "findByName account.name accounts wanted")
      case None
      with False wanted assms(1) show ?thesis
        by (simp add: accountQuery_def return_def)
    next
      case (Some account)
      from bal [of "account.id account"] obtain b where
        "actual_getAccountBalance env (account.id account) = Some b"
        by auto
      with Some False wanted assms(1) show ?thesis
        by (simp add: accountQuery_def getAccountBalance_def ensureInitialized_def io_defs)
    qed
  qed
qed

lemma budgetQuery_succeeds:
  assumes "isInitialized w"
    and month: "actual_getBudgetMonth env (take 7 (toISOString env)) = Some budgetData"
    and present: "budgetData (if specificName query = None then ''categoryGroups''
                           else ''categorGroups'') \<noteq> None"
  shows "\<exists>reply w'. budgetQuery env query w = (Inr reply, w') \<and> isInitialized w'"
proof (cases "specificName query")
  case None
  with present obtain groups where "budgetData ''categoryGroups'' = Some groups"
    by auto
  with None month assms(1) show ?thesis
    by (simp add: budgetQuery_def getBudgetMonth_def ensureInitialized_def io_defs Let_def)
next
  case (Some wanted)
  with present obtain groups where groups: "budgetData ''categorGroups'' = Some groups"
    by auto
  show ?thesis
  proof (cases "findByName budget_category.name (concat (map categories groups)) wanted")
    case None
    with Some groups month assms(1) show ?thesis
      by (simp add: budgetQuery_def getBudgetMonth_def ensureInitialized_def io_defs Let_def)
  next
    case found: (Some category')
    with Some groups month assms(1) show ?thesis
      by (simp add: budgetQuery_def getBudgetMonth_def ensureInitialized_def io_defs Let_def)
  qed
qed

lemma queryBalanceBranch_succeeds:
  assumes ini: "actual_init env" "actual_downloadBudget env" "actual_shutdown env"
    and fetch: "actual_getAccounts env = Some accounts" "actual_getCategories env = Some cats"
    and q: "gemini_balanceQuery env u (map account.name accounts) (map category.name cats)
              = Parsed query"
    and answer: "\<And>w'. isInitialized w' \<Longrightarrow>
        \<exists>reply w''. (if query_type query = Account then accountQuery env accounts query
                      else budgetQuery env query) w' = (Inr reply, w'') \<and> isInitialized w''"
  shows "\<exists>reply. fst (queryBalanceBranch env u w) = Inr reply"
proof -
  let ?w1 = "(if isInitialized w then w
              else w\<lparr>calls := calls w @ [Actual_init, Actual_downloadBudget],
                     isInitialized := True\<rparr>)"
  let ?w2 = "?w1\<lparr>calls := calls ?w1
      @ [Actual_getAccounts, Actual_getCategories,
         Gemini_generateContent
           (ProcessBalanceQuery (map account.name accounts) (map category.name cats)) u]\<rparr>"
  have "isInitialized ?w2" by simp
  from answer [OF this] obtain reply w'' where
    a: "(if query_type query = Account then accountQuery env accounts query
         else budgetQuery env query) ?w2 = (Inr reply, w'')"
    by blast
  have "fst (queryBalanceBranch env u w) = Inr reply"
    using a
    by (cases "isInitialized w")
       (simp_all add: queryBalanceBranch_def fetch q ini io_defs init_def ensureInitialized_def
         getAccounts_def getCategories_def processBalanceQuery_def shutdown_def Let_def)
  then show ?thesis by blast
qed

subsection \<open>Idempotency (C1)\<close>

text \<open>
  Claim C1, amended. Let the event be \<open>message\<close> and the payload carry a non-empty id.

  \<^item> If a record with that id is stored and the lookup succeeds, the handler answers
    \<open>duplicate_ignored\<close>, and all it did is the lookup: no call to the messaging gateway, the
    language model or the budgeting backend, and no new record.
  \<^item> If no such record is stored, the handler stores one when the lookup and the creation
    succeed (and none otherwise); it answers \<open>received\<close> or the request fails, and it answers
    \<open>received\<close> exactly when its last call is the reply to the sender, delivered.
  \<^item> If no such record is stored, it answers \<open>received\<close> whenever every call it makes
    succeeds (the database, the language model with an answer valid for its schema, the
    budgeting backend, the messaging gateway) and the answer of the language model does not
    make the handler read a property of \<open>null\<close> or \<open>undefined\<close>: a transfer names a payee, a
    query of accounts has a name, and the budget of the month has the property the handler
    reads (\<open>categorGroups\<close> for a named category, \<open>categoryGroups\<close> for the summary).
\<close>

theorem idempotency:
  assumes "event req = ''message''" and "payload req = Some p"
    and "messagePayload.id p = Some eventId" and "eventId \<noteq> []"
  shows "(eventId \<in> set (webhookEvents w) \<and> db_findOne env eventId \<longrightarrow>
            handleWebhook env req w
              = (Inr \<lparr>statusCode = 200, status = ''duplicate_ignored''\<rparr>,
                 w\<lparr>calls := calls w @ [WebhookEvent_findOne eventId]\<rparr>))
       \<and> (eventId \<notin> set (webhookEvents w) \<longrightarrow>
            webhookEvents (snd (handleWebhook env req w))
              = (if db_findOne env eventId \<and> db_create env eventId
                 then webhookEvents w @ [eventId] else webhookEvents w)
          \<and> (fst (handleWebhook env req w) = Inr \<lparr>statusCode = 200, status = ''received''\<rparr>
               \<or> (\<exists>e. fst (handleWebhook env req w) = Inl e))
          \<and> (fst (handleWebhook env req w) = Inr \<lparr>statusCode = 200, status = ''received''\<rparr>
               \<longleftrightarrow> (\<exists>reply. last (calls (snd (handleWebhook env req w)))
                               = Waha_sendText (from p) reply
                             \<and> waha_sendText env (from p) reply)))
       \<and> (eventId \<notin> set (webhookEvents w)
          \<and> db_findOne env eventId \<and> db_create env eventId
          \<and> gemini_intent env (body p) = Parsed d
          \<and> (\<forall>message. waha_sendText env (from p) message)
          \<and> (case intent d of
                Question \<Rightarrow> gemini_answer env (body p) \<noteq> None
              | Transaction \<Rightarrow>
                  actual_init env \<and> actual_downloadBudget env \<and> actual_shutdown env
                  \<and> actual_getAccounts env = Some accounts
                  \<and> actual_getCategories env = Some cats
                  \<and> actual_getPayees env \<noteq> None
                  \<and> gemini_transaction env (body p) (map account.name accounts)
                        (map category.name cats) = Parsed td
                  \<and> transactionData.category td \<in> set (map category.name cats)
                  \<and> source_account_name td \<in> set (map account.name accounts)
                  \<and> (\<forall>accountId transactions.
                         actual_addTransactions env accountId transactions)
                  \<and> (transactionDetail d = Transfer \<longrightarrow> transactionData.payee td \<noteq> None)
              | Query_balance \<Rightarrow>
                  actual_init env \<and> actual_downloadBudget env \<and> actual_shutdown env
                  \<and> actual_getAccounts env = Some accounts
                  \<and> actual_getCategories env = Some cats
                  \<and> gemini_balanceQuery env (body p) (map account.name accounts)
                        (map category.name cats) = Parsed query
                  \<and> (if query_type query = Account
                      then queryData.name query \<noteq> None
                           \<and> (\<forall>accountId. actual_getAccountBalance env accountId \<noteq> None)
                      else \<exists>budgetData.
                             actual_getBudgetMonth env (take 7 (toISOString env))
                               = Some budgetData
                             \<and> budgetData (if specificName query = None
                                            then ''categoryGroups'' else ''categorGroups'')
                                 \<noteq> None))
          \<longrightarrow> fst (handleWebhook env req w) = Inr \<lparr>statusCode = 200, status = ''received''\<rparr>)"
proof (intro conjI impI)
  assume "eventId \<in> set (webhookEvents w) \<and> db_findOne env eventId"
  then show "handleWebhook env req w
              = (Inr \<lparr>statusCode = 200, status = ''duplicate_ignored''\<rparr>,
                 w\<lparr>calls := calls w @ [WebhookEvent_findOne eventId]\<rparr>)"
    using assms
    by (simp add: handleWebhook_def messageEvent_def findOne_def find_present io_defs
        duplicate_ignored_def)
next
  assume fresh: "eventId \<notin> set (webhookEvents w)"
  let ?received = "Inr \<lparr>statusCode = 200, status = ''received''\<rparr> :: error + response"
  let ?H = "handleWebhook env req w"
  have "webhookEvents (snd ?H)
          = (if db_findOne env eventId \<and> db_create env eventId
             then webhookEvents w @ [eventId] else webhookEvents w)
      \<and> (fst ?H = ?received \<or> (\<exists>e. fst ?H = Inl e))
      \<and> (fst ?H = ?received
           \<longleftrightarrow> (\<exists>reply. last (calls (snd ?H)) = Waha_sendText (from p) reply
                         \<and> waha_sendText env (from p) reply))"
  proof (cases "db_findOne env eventId")
    case False
    show ?thesis
      unfolding handleWebhook_lookup_fails [OF assms False] using False by simp
  next
    case found: True
    show ?thesis
    proof (cases "db_create env eventId")
      case False
      show ?thesis
        unfolding handleWebhook_create_fails [OF assms fresh found False]
        using found False by simp
    next
      case created: True
      note unfold = handleWebhook_fresh [OF assms fresh found created]
      let ?w3 = "afterIntent w p eventId"
      have w3_last: "calls ?w3 \<noteq> []" "backendCall (last (calls ?w3))"
        by (simp_all add: afterIntent_def)
      have w3_store: "webhookEvents ?w3 = webhookEvents w @ [eventId]"
        by (simp add: afterIntent_def)
      have after: "extends ?w3 w4 \<and> calls w4 \<noteq> [] \<and> backendCall (last (calls w4))"
        if "intentBranch env (body p) d ?w3 = (r, w4)" for d r w4
        using quietD [OF quiet_intentBranch that] extends_last [OF _ w3_last] by blast
      have a: "webhookEvents (snd ?H) = webhookEvents w @ [eventId]"
        using after w3_store
        by (auto simp add: unfold extends_def split: generated.splits prod.splits sum.splits)
      have b: "fst ?H = ?received \<or> (\<exists>e. fst ?H = Inl e)"
        by (auto simp add: unfold received_def split: generated.splits prod.splits sum.splits)
      have c: "fst ?H = ?received
           \<longleftrightarrow> (\<exists>reply. last (calls (snd ?H)) = Waha_sendText (from p) reply
                         \<and> waha_sendText env (from p) reply)"
      proof (cases "gemini_intent env (body p)")
        case Rejected
        with w3_last show ?thesis by (auto simp add: unfold)
      next
        case Malformed
        with w3_last show ?thesis by (auto simp add: unfold)
      next
        case (Parsed d)
        obtain r w4 where br: "intentBranch env (body p) d ?w3 = (r, w4)"
          by (cases "intentBranch env (body p) d ?w3")
        from after [OF br] have l: "backendCall (last (calls w4))" by simp
        show ?thesis
        proof (cases r)
          case (Inl e)
          with Parsed br l show ?thesis by (auto simp add: unfold)
        next
          case (Inr finalResponse)
          with Parsed br show ?thesis by (auto simp add: unfold received_def)
        qed
      qed
      from a b c found created show ?thesis by simp
    qed
  qed
  then show "webhookEvents (snd ?H)
          = (if db_findOne env eventId \<and> db_create env eventId
             then webhookEvents w @ [eventId] else webhookEvents w)"
    and "fst ?H = ?received \<or> (\<exists>e. fst ?H = Inl e)"
    and "fst ?H = ?received
           \<longleftrightarrow> (\<exists>reply. last (calls (snd ?H)) = Waha_sendText (from p) reply
                         \<and> waha_sendText env (from p) reply)"
    by blast+
next
  let ?received = "Inr \<lparr>statusCode = 200, status = ''received''\<rparr> :: error + response"
  assume h: "eventId \<notin> set (webhookEvents w)
          \<and> db_findOne env eventId \<and> db_create env eventId
          \<and> gemini_intent env (body p) = Parsed d
          \<and> (\<forall>message. waha_sendText env (from p) message)
          \<and> (case intent d of
                Question \<Rightarrow> gemini_answer env (body p) \<noteq> None
              | Transaction \<Rightarrow>
                  actual_init env \<and> actual_downloadBudget env \<and> actual_shutdown env
                  \<and> actual_getAccounts env = Some accounts
                  \<and> actual_getCategories env = Some cats
                  \<and> actual_getPayees env \<noteq> None
                  \<and> gemini_transaction env (body p) (map account.name accounts)
                        (map category.name cats) = Parsed td
                  \<and> transactionData.category td \<in> set (map category.name cats)
                  \<and> source_account_name td \<in> set (map account.name accounts)
                  \<and> (\<forall>accountId transactions.
                         actual_addTransactions env accountId transactions)
                  \<and> (transactionDetail d = Transfer \<longrightarrow> transactionData.payee td \<noteq> None)
              | Query_balance \<Rightarrow>
                  actual_init env \<and> actual_downloadBudget env \<and> actual_shutdown env
                  \<and> actual_getAccounts env = Some accounts
                  \<and> actual_getCategories env = Some cats
                  \<and> gemini_balanceQuery env (body p) (map account.name accounts)
                        (map category.name cats) = Parsed query
                  \<and> (if query_type query = Account
                      then queryData.name query \<noteq> None
                           \<and> (\<forall>accountId. actual_getAccountBalance env accountId \<noteq> None)
                      else \<exists>budgetData.
                             actual_getBudgetMonth env (take 7 (toISOString env))
                               = Some budgetData
                             \<and> budgetData (if specificName query = None
                                            then ''categoryGroups'' else ''categorGroups'')
                                 \<noteq> None))"
  then have fresh: "eventId \<notin> set (webhookEvents w)"
    and db: "db_findOne env eventId" "db_create env eventId"
    and it: "gemini_intent env (body p) = Parsed d"
    and sent: "\<And>message. waha_sendText env (from p) message"
    by simp_all
  let ?w3 = "afterIntent w p eventId"
  have "\<exists>reply. fst (intentBranch env (body p) d ?w3) = Inr reply"
  proof (cases "intent d")
    case Question
    with h obtain answer where "gemini_answer env (body p) = Some answer"
      by auto
    with Question show ?thesis
      by (simp add: intentBranch_def getAnswer_def external_def)
  next
    case Transaction
    with h obtain payees where payees: "actual_getPayees env = Some payees"
      by auto
    from h Transaction payees show ?thesis
      unfolding intentBranch_def Transaction intent.case
      by (intro transactionBranch_succeeds [where accounts = accounts and cats = cats
            and payees = payees and td = td]) simp_all
  next
    case Query_balance
    have answer: "\<exists>reply w''. (if query_type query = Account
                      then accountQuery env accounts query
                      else budgetQuery env query) w' = (Inr reply, w'') \<and> isInitialized w''"
      if "isInitialized w'" for w'
    proof (cases "query_type query = Account")
      case True
      with h Query_balance accountQuery_succeeds [OF that, of query env accounts]
      show ?thesis by simp
    next
      case False
      with h Query_balance obtain budgetData where
        "actual_getBudgetMonth env (take 7 (toISOString env)) = Some budgetData"
        "budgetData (if specificName query = None then ''categoryGroups''
                     else ''categorGroups'') \<noteq> None"
        by auto
      from budgetQuery_succeeds [OF that this] False show ?thesis by simp
    qed
    from h Query_balance show ?thesis
      unfolding intentBranch_def Query_balance intent.case
      by (intro queryBalanceBranch_succeeds [where accounts = accounts and cats = cats
            and query = query] answer) simp_all
  qed
  then obtain reply where "fst (intentBranch env (body p) d ?w3) = Inr reply"
    by blast
  then obtain w4 where "intentBranch env (body p) d ?w3 = (Inr reply, w4)"
    by (cases "intentBranch env (body p) d ?w3") simp
  then show "fst (handleWebhook env req w) = ?received"
    by (simp add: handleWebhook_fresh [OF assms fresh db] it sent received_def)
qed

theorem idempotency_witness:
  "handleWebhook example_env example_request (example_world\<lparr>webhookEvents := [''m1'']\<rparr>)
     = (Inr \<lparr>statusCode = 200, status = ''duplicate_ignored''\<rparr>,
        \<lparr>webhookEvents = [''m1''], isInitialized = False,
         calls = [WebhookEvent_findOne ''m1'']\<rparr>)
   \<and> webhookEvents (snd (handleWebhook example_env example_request example_world)) = [''m1'']
   \<and> fst (handleWebhook example_env example_request example_world)
       = Inr \<lparr>statusCode = 200, status = ''received''\<rparr>
   \<and> fst (handleWebhook (transaction_env Transfer example_transfer) example_request
            example_world)
       = Inr \<lparr>statusCode = 200, status = ''received''\<rparr>
   \<and> fst (handleWebhook (balance_env \<lparr>query_type = Summary, name = None\<rparr>) example_request
            example_world)
       = Inr \<lparr>statusCode = 200, status = ''received''\<rparr>"
  using idempotency [of example_request example_payload "''m1''"
          "example_world\<lparr>webhookEvents := [''m1'']\<rparr>" example_env]
    idempotency [of example_request example_payload "''m1''" example_world example_env
      "\<lparr>intent = Question, transactionDetail = Expense\<rparr>"]
    idempotency [of example_request example_payload "''m1''" example_world
      "transaction_env Transfer example_transfer"
      "\<lparr>intent = Transaction, transactionDetail = Transfer\<rparr>"
      example_accounts example_categories example_transfer]
    idempotency [where req = example_request and p = example_payload and eventId = "''m1''"
      and w = example_world and env = "balance_env \<lparr>query_type = Summary, name = None\<rparr>"
      and d = "\<lparr>intent = Query_balance, transactionDetail = Expense\<rparr>"
      and accounts = example_accounts and cats = example_categories
      and query = "\<lparr>query_type = Summary, name = None\<rparr>"]
  by (simp add: example_defs specificName_def)

text \<open>
  The claim as stated fails in each of these ways. The first delivery of a message whose
  intent the language model does not return is answered with an error, not with
  \<open>received\<close>. A second delivery whose lookup the database rejects is answered with an
  error, not with \<open>duplicate_ignored\<close>. And with every call succeeding, the first delivery
  of a transfer for which the language model names no payee, or of a question about the
  budget of a category when the backend returns its groups as \<open>categoryGroups\<close>, fails with
  a \<open>TypeError\<close>.
\<close>

theorem first_delivery_can_fail:
  "''m1'' \<notin> set (webhookEvents example_world)
   \<and> fst (handleWebhook rejecting_env example_request example_world)
       = Inl (ApiError 500 ''Gemini API Error (determineIntent)'')
   \<and> fst (handleWebhook (example_env\<lparr>db_findOne := (\<lambda>eventId. False)\<rparr>) example_request
            (example_world\<lparr>webhookEvents := [''m1'']\<rparr>))
       = Inl MongooseError
   \<and> fst (handleWebhook (transaction_env Transfer (example_transfer\<lparr>payee := None\<rparr>))
            example_request example_world)
       = Inl TypeError
   \<and> fst (handleWebhook (balance_env \<lparr>query_type = Budget, name = Some ''Groceries''\<rparr>)
            example_request example_world)
       = Inl TypeError"
proof -
  have "fst (handleWebhook rejecting_env example_request example_world)
       = Inl (ApiError 500 ''Gemini API Error (determineIntent)'')"
    by (simp add: handleWebhook_def messageEvent_def io_defs service_defs example_defs Let_def)
  moreover have "fst (handleWebhook (example_env\<lparr>db_findOne := (\<lambda>eventId. False)\<rparr>)
            example_request (example_world\<lparr>webhookEvents := [''m1'']\<rparr>))
       = Inl MongooseError"
    by (simp add: handleWebhook_def messageEvent_def io_defs service_defs example_defs Let_def)
  moreover have "fst (handleWebhook (transaction_env Transfer (example_transfer\<lparr>payee := None\<rparr>))
            example_request example_world)
       = Inl TypeError"
    by (simp add: handleWebhook_def messageEvent_def transactionBranch_def
        transferTransaction_def io_defs service_defs example_defs eval_defs Let_def)
  moreover have "fst (handleWebhook
            (balance_env \<lparr>query_type = Budget, name = Some ''Groceries''\<rparr>)
            example_request example_world)
       = Inl TypeError"
    by (simp add: handleWebhook_def messageEvent_def queryBalanceBranch_def budgetQuery_def
        specificName_def io_defs service_defs example_defs eval_defs Let_def)
  ultimately show ?thesis
    by (simp add: example_world_def)
qed

subsection \<open>An error in the transaction branch (C2)\<close>

text \<open>
  Claim C2 does not hold of the code. Whenever the transaction branch throws (the \<open>catch\<close>
  of line 185 assigns the apology to \<open>finalResponse\<close> and throws the error again), the
  request fails with that error and, from the arrival of the event on, no text message is
  sent to anybody: the apology is assigned and never delivered. (When the database rejects
  the lookup or the creation of the record the request fails before that, with the error of
  the database, and no text message is sent either.)
\<close>

theorem failed_transaction_sends_no_text:
  assumes ev: "event req = ''message''" "payload req = Some p"
      "messagePayload.id p = Some eventId" "eventId \<noteq> []" "eventId \<notin> set (webhookEvents w)"
    and it: "gemini_intent env (body p) = Parsed d" "intent d = Transaction"
    and thrown: "fst (transactionBranch env (body p) (transactionDetail d)
                        (w\<lparr>webhookEvents := webhookEvents w @ [eventId],
                           calls := calls w @ [WebhookEvent_findOne eventId,
                             WebhookEvent_create eventId, Waha_sendSeen (from p),
                             Gemini_generateContent DetermineIntent (body p)]\<rparr>)) = Inl e"
  shows "fst (handleWebhook env req w)
           = Inl (if db_findOne env eventId \<and> db_create env eventId then e else MongooseError)
       \<and> (\<forall>chat message. Waha_sendText chat message
             \<notin> set (drop (length (calls w)) (calls (snd (handleWebhook env req w)))))"
proof (cases "db_findOne env eventId \<and> db_create env eventId")
  case False
  then show ?thesis
    using handleWebhook_lookup_fails [OF ev(1-4), of env w]
      handleWebhook_create_fails [OF ev, of env]
    by (cases "db_findOne env eventId") simp_all
next
  case True
  then have db: "db_findOne env eventId" "db_create env eventId"
    by simp_all
  obtain r w4 where b: "transactionBranch env (body p) (transactionDetail d)
      (afterIntent w p eventId) = (r, w4)"
    by (cases "transactionBranch env (body p) (transactionDetail d) (afterIntent w p eventId)")
  with thrown have r: "r = Inl e" by (simp add: afterIntent_def)
  have h: "handleWebhook env req w = (Inl e, w4)"
    using b r it by (simp add: handleWebhook_fresh [OF ev db] intentBranch_def)
  have "extends (afterIntent w p eventId) w4"
    using quiet_transactionBranch b by (rule quietD)
  then obtain cs where cs: "calls w4 = calls (afterIntent w p eventId) @ cs"
      "list_all backendCall cs"
    by (auto simp add: extends_def)
  have "Waha_sendText chat message \<notin> set cs" for chat message
    using cs(2) by (auto simp add: list_all_iff)
  with cs(1) h db show ?thesis by (simp add: afterIntent_def)
qed

theorem failed_transaction_sends_no_text_witness:
  "handleWebhook no_accounts_env example_request example_world
     = (Inl (ApiError 500 ''Actual API Error (getAccounts)''),
        \<lparr>webhookEvents = [''m1''], isInitialized = False,
         calls = [WebhookEvent_findOne ''m1'', WebhookEvent_create ''m1'',
                  Waha_sendSeen ''628123@c.us'',
                  Gemini_generateContent DetermineIntent ''Halo'',
                  Actual_init, Actual_downloadBudget, Actual_getAccounts, Actual_getCategories,
                  Actual_getPayees, Actual_shutdown]\<rparr>)
   \<and> Waha_sendText ''628123@c.us''
        ''Sorry, I encountered an error while processing your transaction with Actual Budget.''
       \<notin> set (calls (snd (handleWebhook no_accounts_env example_request example_world)))"
proof -
  have run: "handleWebhook no_accounts_env example_request example_world
     = (Inl (ApiError 500 ''Actual API Error (getAccounts)''),
        \<lparr>webhookEvents = [''m1''], isInitialized = False,
         calls = [WebhookEvent_findOne ''m1'', WebhookEvent_create ''m1'',
                  Waha_sendSeen ''628123@c.us'',
                  Gemini_generateContent DetermineIntent ''Halo'',
                  Actual_init, Actual_downloadBudget, Actual_getAccounts, Actual_getCategories,
                  Actual_getPayees, Actual_shutdown]\<rparr>)"
    by (simp add: handleWebhook_def messageEvent_def transactionBranch_def io_defs service_defs
        example_defs Let_def)
  have thrown: "fst (transactionBranch no_accounts_env ''Halo'' Expense
          \<lparr>webhookEvents = [''m1''], isInitialized = False,
           calls = [WebhookEvent_findOne ''m1'', WebhookEvent_create ''m1'',
                    Waha_sendSeen ''628123@c.us'',
                    Gemini_generateContent DetermineIntent ''Halo'']\<rparr>)
        = Inl (ApiError 500 ''Actual API Error (getAccounts)'')"
    by (simp add: transactionBranch_def io_defs service_defs example_defs Let_def)
  from failed_transaction_sends_no_text
         [where req = example_request and p = example_payload and eventId = "''m1''"
            and w = example_world and env = no_accounts_env
            and d = "\<lparr>intent = Transaction, transactionDetail = Expense\<rparr>"
            and e = "ApiError 500 ''Actual API Error (getAccounts)''"]
       thrown
  have "\<forall>chat message. Waha_sendText chat message
      \<notin> set (calls (snd (handleWebhook no_accounts_env example_request example_world)))"
    by (simp add: example_defs)
  with run show ?thesis by blast
qed

subsection \<open>A transfer whose lookups fail (C3)\<close>

text \<open>
  Claim C3. Take a transfer whose source account is found and whose extraction names a payee
  (the destination). If the destination account, its internal transfer payee or the
  source's internal transfer payee is not found, nothing is posted to the backend (the calls
  are exactly those listed, with no \<open>addTransactions\<close> among them), and the reply names the
  lookup that failed, in this order: the destination account, then the transfer payee of the
  destination account, then the transfer payee of the source account. So a missing transfer
  payee of the destination is reported with the destination's name even when the source's is
  missing too. The reply is sent once \<open>shutdown\<close> has returned; the request fails only if
  \<open>shutdown\<close> or the sending fails, or if the database rejects the lookup or the creation
  of the record of the event, in which case nothing else is called.
\<close>

theorem transfer_lookup_failure:
  fixes account :: account and payees :: "payee list" and accounts :: "account list"
    and payeeName :: string
  defines "destination \<equiv> findByName account.name accounts payeeName"
    and "transferPayee \<equiv> (\<lambda>acc. find (\<lambda>q. transfer_acct q = Some (account.id acc)) payees)"
  defines "reply \<equiv>
       (case destination of
          None \<Rightarrow> ''Sorry, I couldn't find a destination account named \"'' @ payeeName
                   @ ''\" for the transfer.''
        | Some dst \<Rightarrow>
            (case transferPayee dst of
               None \<Rightarrow> ''Sorry, I couldn't find the internal transfer payee for account \"''
                        @ account.name dst @ ''\".''
             | Some _ \<Rightarrow> ''Sorry, I couldn't find the internal transfer payee for account \"''
                        @ account.name account @ ''\".''))"
  assumes ev: "event req = ''message''" "payload req = Some p"
      "messagePayload.id p = Some eventId" "eventId \<noteq> []" "eventId \<notin> set (webhookEvents w)"
    and it: "gemini_intent env (body p) = Parsed d" "intent d = Transaction"
      "transactionDetail d = Transfer"
    and ini: "isInitialized w \<or> actual_init env \<and> actual_downloadBudget env"
    and fetch: "actual_getAccounts env = Some accounts" "actual_getCategories env = Some cats"
      "actual_getPayees env = Some payees"
    and tx: "gemini_transaction env (body p) (map account.name accounts) (map category.name cats)
               = Parsed td"
      "transactionData.category td \<in> set (map category.name cats)"
      "source_account_name td \<in> set (map account.name accounts)"
    and src: "findByName account.name accounts (source_account_name td) = Some account"
    and pay: "transactionData.payee td = Some payeeName"
    and fail: "destination = None
               \<or> (\<exists>dst. destination = Some dst
                     \<and> (transferPayee dst = None \<or> transferPayee account = None))"
  shows "handleWebhook env req w =
     (if \<not> db_findOne env eventId
      then (Inl MongooseError, w\<lparr>calls := calls w @ [WebhookEvent_findOne eventId]\<rparr>)
      else if \<not> db_create env eventId
      then (Inl MongooseError,
            w\<lparr>calls := calls w @ [WebhookEvent_findOne eventId, WebhookEvent_create eventId]\<rparr>)
      else
        (if actual_shutdown env
         then (if waha_sendText env (from p) reply
               then Inr \<lparr>statusCode = 200, status = ''received''\<rparr>
               else Inl (ApiError 500 ''WAHA API Error''))
         else Inl LibraryError,
         w\<lparr>webhookEvents := webhookEvents w @ [eventId],
           isInitialized := \<not> actual_shutdown env,
           calls := calls w
             @ [WebhookEvent_findOne eventId, WebhookEvent_create eventId, Waha_sendSeen (from p),
                Gemini_generateContent DetermineIntent (body p)]
             @ initCalls w
             @ [Actual_getAccounts, Actual_getCategories, Actual_getPayees,
                Gemini_generateContent
                  (ProcessTransaction (map account.name accounts) (map category.name cats)) (body p),
                Actual_shutdown]
             @ (if actual_shutdown env then [Waha_sendText (from p) reply] else [])\<rparr>))"
proof (rule handleWebhook_database [OF ev])
  assume db: "db_findOne env eventId" "db_create env eventId"
  have f: "find (\<lambda>e. e = eventId) (webhookEvents w) = None"
    using ev(5) by (rule find_absent)
  have valid: "transactionData.category td \<in> category.name ` set cats"
    "source_account_name td \<in> account.name ` set accounts"
    using tx(2,3) by simp_all
  note defs = handleWebhook_def messageEvent_def ev it fetch tx(1) src pay f valid db
    io_defs service_defs transactionBranch_def transferTransaction_def initCalls_def Let_def
    received_def
  show "handleWebhook env req w =
     (if actual_shutdown env
      then (if waha_sendText env (from p) reply
            then Inr \<lparr>statusCode = 200, status = ''received''\<rparr>
            else Inl (ApiError 500 ''WAHA API Error''))
      else Inl LibraryError,
      w\<lparr>webhookEvents := webhookEvents w @ [eventId],
        isInitialized := \<not> actual_shutdown env,
        calls := calls w
          @ [WebhookEvent_findOne eventId, WebhookEvent_create eventId, Waha_sendSeen (from p),
             Gemini_generateContent DetermineIntent (body p)]
          @ initCalls w
          @ [Actual_getAccounts, Actual_getCategories, Actual_getPayees,
             Gemini_generateContent
               (ProcessTransaction (map account.name accounts) (map category.name cats)) (body p),
             Actual_shutdown]
          @ (if actual_shutdown env then [Waha_sendText (from p) reply] else [])\<rparr>)"
  proof (cases "findByName account.name accounts payeeName")
    case None
    then have r: "reply = ''Sorry, I couldn't find a destination account named \"'' @ payeeName
                   @ ''\" for the transfer.''"
      by (simp add: reply_def destination_def)
    from None ini show ?thesis
      unfolding r
      by (cases "isInitialized w"; cases "actual_shutdown env") (simp_all add: defs)
  next
    case (Some dst)
    show ?thesis
    proof (cases "find (\<lambda>q. transfer_acct q = Some (account.id dst)) payees")
      case None
      with Some have r: "reply =
          ''Sorry, I couldn't find the internal transfer payee for account \"''
                        @ account.name dst @ ''\".''"
        by (simp add: reply_def destination_def transferPayee_def)
      from None Some ini show ?thesis
        unfolding r
        by (cases "isInitialized w"; cases "actual_shutdown env") (simp_all add: defs)
    next
      case dp: (Some destinationPayee)
      with Some fail have
        sp: "find (\<lambda>q. transfer_acct q = Some (account.id account)) payees = None"
        by (simp add: destination_def transferPayee_def)
      from dp Some have r: "reply =
          ''Sorry, I couldn't find the internal transfer payee for account \"''
                        @ account.name account @ ''\".''"
        by (simp add: reply_def destination_def transferPayee_def)
      from dp sp Some ini show ?thesis
        unfolding r
        by (cases "isInitialized w"; cases "actual_shutdown env") (simp_all add: defs)
    qed
  qed
qed

theorem transfer_lookup_failure_witness:
  "handleWebhook cash_payee_only_env example_request example_world =
     (Inr \<lparr>statusCode = 200, status = ''received''\<rparr>,
      \<lparr>webhookEvents = [''m1''], isInitialized = False,
       calls = [WebhookEvent_findOne ''m1'', WebhookEvent_create ''m1'',
                Waha_sendSeen ''628123@c.us'', Gemini_generateContent DetermineIntent ''Halo'',
                Actual_init, Actual_downloadBudget,
                Actual_getAccounts, Actual_getCategories, Actual_getPayees,
                Gemini_generateContent
                  (ProcessTransaction [''Cash'', ''Gopay'', ''Old wallet'']
                     [''Groceries'', ''Salary'']) ''Halo'',
                Actual_shutdown,
                Waha_sendText ''628123@c.us''
                  ''Sorry, I couldn't find the internal transfer payee for account \"Gopay\".'']\<rparr>)"
  using transfer_lookup_failure
          [where req = example_request and p = example_payload and eventId = "''m1''"
             and w = example_world and env = cash_payee_only_env
             and d = "\<lparr>intent = Transaction, transactionDetail = Transfer\<rparr>"
             and accounts = example_accounts and cats = example_categories
             and payees = "[\<lparr>payee.id = ''p1'', name = ''Cash'', transfer_acct = Some ''a1''\<rparr>]"
             and td = example_transfer
             and account = "\<lparr>account.id = ''a1'', name = ''Cash'', closed = False\<rparr>"
             and payeeName = "''gopay''"]
  by (simp add: example_defs eval_defs)

subsection \<open>An income or an expense (C4)\<close>

text \<open>The amounts of lines 144, 151 and 172, case by case.\<close>

lemma Math_abs_cases:
  "Math_abs x =
     (case x of Num q \<Rightarrow> Num \<bar>q\<bar> | NegZero \<Rightarrow> Num 0 | PosInfinity \<Rightarrow> PosInfinity
      | NegInfinity \<Rightarrow> PosInfinity | NaN \<Rightarrow> NaN)"
  by (cases x) simp_all

lemma negate_Math_abs_cases:
  "negate (case x of Num q \<Rightarrow> Num \<bar>q\<bar> | NegZero \<Rightarrow> Num 0 | PosInfinity \<Rightarrow> PosInfinity
           | NegInfinity \<Rightarrow> PosInfinity | NaN \<Rightarrow> NaN) =
     (case x of Num q \<Rightarrow> if q = 0 then NegZero else Num (- \<bar>q\<bar>) | NegZero \<Rightarrow> NegZero
      | PosInfinity \<Rightarrow> NegInfinity | NegInfinity \<Rightarrow> NegInfinity | NaN \<Rightarrow> NaN)"
  by (cases x) simp_all

text \<open>
  Claim C4, amended. For an income or an expense whose source account and category are
  found, exactly one transaction is posted, to the source account. Let \<open>c\<close> be the double
  \<open>parseFloat(amount) * 100\<close>. The amount posted is \<open>|c|\<close> for an income and \<open>-|c|\<close> for
  an expense: the sign of the extracted amount plays no part, and the product is the
  rounded product of two doubles (\<open>NaN\<close> when the amount is no number). Its notes are the
  description, its \<open>payee_name\<close> the extracted payee, its category the id of the category
  found, it is dated today and not cleared; the reply is the model's \<open>message_to_user\<close>,
  sent once \<open>shutdown\<close> has returned. The database and the backend are assumed to accept
  what they are asked.
\<close>

theorem income_or_expense_posted:
  assumes ev: "event req = ''message''" "payload req = Some p"
      "messagePayload.id p = Some eventId" "eventId \<noteq> []" "eventId \<notin> set (webhookEvents w)"
    and db: "db_findOne env eventId" "db_create env eventId"
    and it: "gemini_intent env (body p) = Parsed d" "intent d = Transaction"
      "transactionDetail d = Income \<or> transactionDetail d = Expense"
    and ini: "isInitialized w \<or> actual_init env \<and> actual_downloadBudget env"
    and fetch: "actual_getAccounts env = Some accounts" "actual_getCategories env = Some cats"
      "actual_getPayees env = Some payees"
    and tx: "gemini_transaction env (body p) (map account.name accounts) (map category.name cats)
               = Parsed td"
      "transactionData.category td \<in> set (map category.name cats)"
      "source_account_name td \<in> set (map account.name accounts)"
    and res: "findByName account.name accounts (source_account_name td) = Some account"
      "findByName category.name cats (transactionData.category td) = Some category'"
    and new: "newTransaction =
        \<lparr>transaction.date = takeWhile (\<lambda>c. c \<noteq> CHR ''T'') (toISOString env),
         amount =
           (if transactionDetail d = Income
            then (case times100 (parseFloat (transactionData.amount td)) of
                    Num q \<Rightarrow> Num \<bar>q\<bar> | NegZero \<Rightarrow> Num 0 | PosInfinity \<Rightarrow> PosInfinity
                  | NegInfinity \<Rightarrow> PosInfinity | NaN \<Rightarrow> NaN)
            else (case times100 (parseFloat (transactionData.amount td)) of
                    Num q \<Rightarrow> if q = 0 then NegZero else Num (- \<bar>q\<bar>) | NegZero \<Rightarrow> NegZero
                  | PosInfinity \<Rightarrow> NegInfinity | NegInfinity \<Rightarrow> NegInfinity | NaN \<Rightarrow> NaN)),
         payee = None, notes = description td, category = Some (category.id category'),
         payee_name = transactionData.payee td, cleared = False\<rparr>"
    and ok: "actual_addTransactions env (account.id account) [newTransaction]"
  shows "handleWebhook env req w =
     (if actual_shutdown env
      then (if waha_sendText env (from p) (message_to_user td)
            then Inr \<lparr>statusCode = 200, status = ''received''\<rparr>
            else Inl (ApiError 500 ''WAHA API Error''))
      else Inl LibraryError,
      w\<lparr>webhookEvents := webhookEvents w @ [eventId],
        isInitialized := \<not> actual_shutdown env,
        calls := calls w
          @ [WebhookEvent_findOne eventId, WebhookEvent_create eventId, Waha_sendSeen (from p),
             Gemini_generateContent DetermineIntent (body p)]
          @ initCalls w
          @ [Actual_getAccounts, Actual_getCategories, Actual_getPayees,
             Gemini_generateContent
               (ProcessTransaction (map account.name accounts) (map category.name cats)) (body p),
             Actual_addTransactions (account.id account) [newTransaction],
             Actual_shutdown]
          @ (if actual_shutdown env then [Waha_sendText (from p) (message_to_user td)]
             else [])\<rparr>)"
proof -
  have f: "find (\<lambda>e. e = eventId) (webhookEvents w) = None"
    using ev(5) by (rule find_absent)
  have valid: "transactionData.category td \<in> category.name ` set cats"
    "source_account_name td \<in> account.name ` set accounts"
    using tx(2,3) by simp_all
  note defs = handleWebhook_def messageEvent_def ev db it(1,2) fetch tx(1) res f valid
    io_defs service_defs transactionBranch_def incomeExpenseTransaction_def initCalls_def Let_def
    received_def Math_abs_cases negate_Math_abs_cases
  from it(3) show ?thesis
  proof
    assume "transactionDetail d = Income"
    with ok ini show ?thesis
      unfolding new
      by (cases "isInitialized w"; cases "actual_shutdown env") (simp_all add: defs)
  next
    assume "transactionDetail d = Expense"
    with ok ini show ?thesis
      unfolding new
      by (cases "isInitialized w"; cases "actual_shutdown env") (simp_all add: defs)
  qed
qed

text \<open>
  An income of \<open>5000000\<close> is posted as 500000000. An expense of \<open>19.99\<close> is posted as
  \<open>-(1999 - 2^-42)\<close>, that is \<open>-1998.9999999999998\<close>, not as \<open>-1999\<close>.
\<close>

theorem income_or_expense_posted_witness:
  "handleWebhook (transaction_env Income example_transactionData) example_request example_world =
     (Inr \<lparr>statusCode = 200, status = ''received''\<rparr>,
      \<lparr>webhookEvents = [''m1''], isInitialized = False,
       calls = [WebhookEvent_findOne ''m1'', WebhookEvent_create ''m1'',
                Waha_sendSeen ''628123@c.us'', Gemini_generateContent DetermineIntent ''Halo'',
                Actual_init, Actual_downloadBudget,
                Actual_getAccounts, Actual_getCategories, Actual_getPayees,
                Gemini_generateContent
                  (ProcessTransaction [''Cash'', ''Gopay'', ''Old wallet'']
                     [''Groceries'', ''Salary'']) ''Halo'',
                Actual_addTransactions ''a1''
                  [\<lparr>transaction.date = ''2026-11-02'', amount = Num 500000000, payee = None,
                    notes = ''Gaji'', category = Some ''c2'', payee_name = Some ''Kantor'',
                    cleared = False\<rparr>],
                Actual_shutdown, Waha_sendText ''628123@c.us'' ''Recorded.'']\<rparr>)
   \<and> handleWebhook (transaction_env Expense example_expense) example_request example_world =
     (Inr \<lparr>statusCode = 200, status = ''received''\<rparr>,
      \<lparr>webhookEvents = [''m1''], isInitialized = False,
       calls = [WebhookEvent_findOne ''m1'', WebhookEvent_create ''m1'',
                Waha_sendSeen ''628123@c.us'', Gemini_generateContent DetermineIntent ''Halo'',
                Actual_init, Actual_downloadBudget,
                Actual_getAccounts, Actual_getCategories, Actual_getPayees,
                Gemini_generateContent
                  (ProcessTransaction [''Cash'', ''Gopay'', ''Old wallet'']
                     [''Groceries'', ''Salary'']) ''Halo'',
                Actual_addTransactions ''a2''
                  [\<lparr>transaction.date = ''2026-11-02'',
                    amount = Num (- (8791694975696895 / 4398046511104)), payee = None,
                    notes = ''Beras'', category = Some ''c1'', payee_name = None,
                    cleared = False\<rparr>],
                Actual_shutdown, Waha_sendText ''628123@c.us'' ''Noted.'']\<rparr>)
   \<and> (8791694975696895 / 4398046511104 :: rat) = 1999 - 1 / 2 ^ 42"
  using income_or_expense_posted
          [where req = example_request and p = example_payload and eventId = "''m1''"
             and w = example_world and env = "transaction_env Income example_transactionData"
             and d = "\<lparr>intent = Transaction, transactionDetail = Income\<rparr>"
             and accounts = example_accounts and cats = example_categories
             and payees = example_payees and td = example_transactionData
             and account = "\<lparr>account.id = ''a1'', name = ''Cash'', closed = False\<rparr>"
             and category' = "\<lparr>category.id = ''c2'', name = ''Salary''\<rparr>"
             and newTransaction =
               "\<lparr>transaction.date = ''2026-11-02'', amount = Num 500000000, payee = None,
                 notes = ''Gaji'', category = Some ''c2'', payee_name = Some ''Kantor'',
                 cleared = False\<rparr>"]
        income_or_expense_posted
          [where req = example_request and p = example_payload and eventId = "''m1''"
             and w = example_world and env = "transaction_env Expense example_expense"
             and d = "\<lparr>intent = Transaction, transactionDetail = Expense\<rparr>"
             and accounts = example_accounts and cats = example_categories
             and payees = example_payees and td = example_expense
             and account = "\<lparr>account.id = ''a2'', name = ''Gopay'', closed = False\<rparr>"
             and category' = "\<lparr>category.id = ''c1'', name = ''Groceries''\<rparr>"
             and newTransaction =
               "\<lparr>transaction.date = ''2026-11-02'',
                 amount = Num (- (8791694975696895 / 4398046511104)), payee = None,
                 notes = ''Beras'', category = Some ''c1'', payee_name = None,
                 cleared = False\<rparr>"]
  by (simp add: example_defs eval_defs)

text \<open>
  The claim as stated fails in two ways. For an income whose extracted amount is \<open>-5\<close> the
  claim gives the amount \<open>-5 \<times> 100 = -500\<close>, and the transaction posted has the amount
  500. For an expense whose extracted amount is \<open>19.99\<close> the claim gives
  \<open>-(19.99 \<times> 100) = -1999\<close>, and the transaction posted has the amount
  \<open>-(1999 - 2^-42)\<close>, which is no whole number of minor units.
\<close>

theorem posted_amount_is_not_the_signed_product:
  "handleWebhook (transaction_env Income (example_transactionData\<lparr>amount := ''-5''\<rparr>))
       example_request example_world =
     (Inr \<lparr>statusCode = 200, status = ''received''\<rparr>,
      \<lparr>webhookEvents = [''m1''], isInitialized = False,
       calls = [WebhookEvent_findOne ''m1'', WebhookEvent_create ''m1'',
                Waha_sendSeen ''628123@c.us'', Gemini_generateContent DetermineIntent ''Halo'',
                Actual_init, Actual_downloadBudget,
                Actual_getAccounts, Actual_getCategories, Actual_getPayees,
                Gemini_generateContent
                  (ProcessTransaction [''Cash'', ''Gopay'', ''Old wallet'']
                     [''Groceries'', ''Salary'']) ''Halo'',
                Actual_addTransactions ''a1''
                  [\<lparr>transaction.date = ''2026-11-02'', amount = Num 500, payee = None,
                    notes = ''Gaji'', category = Some ''c2'', payee_name = Some ''Kantor'',
                    cleared = False\<rparr>],
                Actual_shutdown, Waha_sendText ''628123@c.us'' ''Recorded.'']\<rparr>)
   \<and> Num 500 \<noteq> Num (- 5 * 100)
   \<and> handleWebhook (transaction_env Expense example_expense) example_request example_world =
     (Inr \<lparr>statusCode = 200, status = ''received''\<rparr>,
      \<lparr>webhookEvents = [''m1''], isInitialized = False,
       calls = [WebhookEvent_findOne ''m1'', WebhookEvent_create ''m1'',
                Waha_sendSeen ''628123@c.us'', Gemini_generateContent DetermineIntent ''Halo'',
                Actual_init, Actual_downloadBudget,
                Actual_getAccounts, Actual_getCategories, Actual_getPayees,
                Gemini_generateContent
                  (ProcessTransaction [''Cash'', ''Gopay'', ''Old wallet'']
                     [''Groceries'', ''Salary'']) ''Halo'',
                Actual_addTransactions ''a2''
                  [\<lparr>transaction.date = ''2026-11-02'',
                    amount = Num (- (1999 - 1 / 2 ^ 42)), payee = None,
                    notes = ''Beras'', category = Some ''c1'', payee_name = None,
                    cleared = False\<rparr>],
                Actual_shutdown, Waha_sendText ''628123@c.us'' ''Noted.'']\<rparr>)
   \<and> Num (- (1999 - 1 / 2 ^ 42)) \<noteq> Num (- (1999 / 100 * 100))"
  by (simp add: handleWebhook_def messageEvent_def transactionBranch_def
      incomeExpenseTransaction_def io_defs service_defs example_defs eval_defs Let_def
      received_def)

subsection \<open>A transfer (C5)\<close>

text \<open>
  Claim C5, amended. For a transfer whose source account, destination account and two
  internal transfer payees are found (and whose record the database and whose two postings
  the backend accept), exactly two transactions are posted. Let \<open>c\<close> be the double
  \<open>parseFloat(amount) * 100\<close>, the rounded product of two doubles (\<open>NaN\<close> when the amount
  is no number). The first is a withdrawal on the source account, of \<open>-|c|\<close>, with the
  destination's transfer payee as payee; the second is a deposit on the destination account,
  of \<open>|c|\<close>, with the source's transfer payee as payee. Both are dated today and not
  cleared, and the reply is the model's \<open>message_to_user\<close>, sent once \<open>shutdown\<close> has
  returned.
\<close>

theorem transfer_posted:
  assumes ev: "event req = ''message''" "payload req = Some p"
      "messagePayload.id p = Some eventId" "eventId \<noteq> []" "eventId \<notin> set (webhookEvents w)"
    and db: "db_findOne env eventId" "db_create env eventId"
    and it: "gemini_intent env (body p) = Parsed d" "intent d = Transaction"
      "transactionDetail d = Transfer"
    and ini: "isInitialized w \<or> actual_init env \<and> actual_downloadBudget env"
    and fetch: "actual_getAccounts env = Some accounts" "actual_getCategories env = Some cats"
      "actual_getPayees env = Some payees"
    and tx: "gemini_transaction env (body p) (map account.name accounts) (map category.name cats)
               = Parsed td"
      "transactionData.category td \<in> set (map category.name cats)"
      "source_account_name td \<in> set (map account.name accounts)"
    and res: "findByName account.name accounts (source_account_name td) = Some account"
      "transactionData.payee td = Some payeeName"
      "findByName account.name accounts payeeName = Some destinationAccount"
      "find (\<lambda>q. transfer_acct q = Some (account.id account)) payees = Some sourcePayee"
      "find (\<lambda>q. transfer_acct q = Some (account.id destinationAccount)) payees
         = Some destinationPayee"
    and legs: "withdrawal =
        \<lparr>transaction.date = takeWhile (\<lambda>c. c \<noteq> CHR ''T'') (toISOString env),
         amount =
           (case times100 (parseFloat (transactionData.amount td)) of
              Num q \<Rightarrow> if q = 0 then NegZero else Num (- \<bar>q\<bar>) | NegZero \<Rightarrow> NegZero
            | PosInfinity \<Rightarrow> NegInfinity | NegInfinity \<Rightarrow> NegInfinity | NaN \<Rightarrow> NaN),
         payee = Some (payee.id destinationPayee),
         notes = (if description td \<noteq> [] then description td
                  else ''Transfer to '' @ account.name destinationAccount),
         category = None, payee_name = None, cleared = False\<rparr>"
      "deposit =
        \<lparr>transaction.date = takeWhile (\<lambda>c. c \<noteq> CHR ''T'') (toISOString env),
         amount =
           (case times100 (parseFloat (transactionData.amount td)) of
              Num q \<Rightarrow> Num \<bar>q\<bar> | NegZero \<Rightarrow> Num 0 | PosInfinity \<Rightarrow> PosInfinity
            | NegInfinity \<Rightarrow> PosInfinity | NaN \<Rightarrow> NaN),
         payee = Some (payee.id sourcePayee),
         notes = (if description td \<noteq> [] then description td
                  else ''Transfer from '' @ account.name account),
         category = None, payee_name = None, cleared = False\<rparr>"
    and ok: "actual_addTransactions env (account.id account) [withdrawal]"
      "actual_addTransactions env (account.id destinationAccount) [deposit]"
  shows "handleWebhook env req w =
     (if actual_shutdown env
      then (if waha_sendText env (from p) (message_to_user td)
            then Inr \<lparr>statusCode = 200, status = ''received''\<rparr>
            else Inl (ApiError 500 ''WAHA API Error''))
      else Inl LibraryError,
      w\<lparr>webhookEvents := webhookEvents w @ [eventId],
        isInitialized := \<not> actual_shutdown env,
        calls := calls w
          @ [WebhookEvent_findOne eventId, WebhookEvent_create eventId, Waha_sendSeen (from p),
             Gemini_generateContent DetermineIntent (body p)]
          @ initCalls w
          @ [Actual_getAccounts, Actual_getCategories, Actual_getPayees,
             Gemini_generateContent
               (ProcessTransaction (map account.name accounts) (map category.name cats)) (body p),
             Actual_addTransactions (account.id account) [withdrawal],
             Actual_addTransactions (account.id destinationAccount) [deposit],
             Actual_shutdown]
          @ (if actual_shutdown env then [Waha_sendText (from p) (message_to_user td)]
             else [])\<rparr>)"
proof -
  have f: "find (\<lambda>e. e = eventId) (webhookEvents w) = None"
    using ev(5) by (rule find_absent)
  have valid: "transactionData.category td \<in> category.name ` set cats"
    "source_account_name td \<in> account.name ` set accounts"
    using tx(2,3) by simp_all
  note defs = handleWebhook_def messageEvent_def ev db it fetch tx(1) res f valid
    io_defs service_defs transactionBranch_def transferTransaction_def initCalls_def Let_def
    received_def Math_abs_cases negate_Math_abs_cases
  from ok ini show ?thesis
    unfolding legs
    by (cases "isInitialized w"; cases "actual_shutdown env") (simp_all add: defs)
qed

text \<open>
  Three transfers from Cash to Gopay: of \<open>250000\<close>; of \<open>-250000\<close>, whose sign is dropped;
  and of \<open>19.99\<close>, whose hundredfold is the double \<open>1999 - 2^-42\<close>.
\<close>

theorem transfer_posted_witness:
  "map (\<lambda>extracted.
          handleWebhook (transaction_env Transfer (example_transfer\<lparr>amount := extracted\<rparr>))
            example_request example_world)
     [''250000'', ''-250000'', ''19.99'']
   = map (\<lambda>cents.
            (Inr \<lparr>statusCode = 200, status = ''received''\<rparr>,
             \<lparr>webhookEvents = [''m1''], isInitialized = False,
              calls = [WebhookEvent_findOne ''m1'', WebhookEvent_create ''m1'',
                       Waha_sendSeen ''628123@c.us'',
                       Gemini_generateContent DetermineIntent ''Halo'',
                       Actual_init, Actual_downloadBudget,
                       Actual_getAccounts, Actual_getCategories, Actual_getPayees,
                       Gemini_generateContent
                         (ProcessTransaction [''Cash'', ''Gopay'', ''Old wallet'']
                            [''Groceries'', ''Salary'']) ''Halo'',
                       Actual_addTransactions ''a1''
                         [\<lparr>transaction.date = ''2026-11-02'', amount = Num (- cents),
                           payee = Some ''p2'', notes = ''Transfer to Gopay'', category = None,
                           payee_name = None, cleared = False\<rparr>],
                       Actual_addTransactions ''a2''
                         [\<lparr>transaction.date = ''2026-11-02'', amount = Num cents,
                           payee = Some ''p1'', notes = ''Transfer from Cash'', category = None,
                           payee_name = None, cleared = False\<rparr>],
                       Actual_shutdown, Waha_sendText ''628123@c.us'' ''Moved.'']\<rparr>))
       [25000000, 25000000, 8791694975696895 / 4398046511104]"
  using
    transfer_posted
          [where req = example_request and p = example_payload and eventId = "''m1''"
             and w = example_world
             and env = "transaction_env Transfer (example_transfer\<lparr>amount := ''250000''\<rparr>)"
             and d = "\<lparr>intent = Transaction, transactionDetail = Transfer\<rparr>"
             and accounts = example_accounts and cats = example_categories
             and payees = example_payees
             and td = "example_transfer\<lparr>amount := ''250000''\<rparr>"
             and account = "\<lparr>account.id = ''a1'', name = ''Cash'', closed = False\<rparr>"
             and payeeName = "''gopay''"
             and destinationAccount = "\<lparr>account.id = ''a2'', name = ''Gopay'', closed = False\<rparr>"
             and sourcePayee = "\<lparr>payee.id = ''p1'', name = ''Cash'', transfer_acct = Some ''a1''\<rparr>"
             and destinationPayee =
               "\<lparr>payee.id = ''p2'', name = ''Gopay'', transfer_acct = Some ''a2''\<rparr>"
             and withdrawal =
               "\<lparr>transaction.date = ''2026-11-02'', amount = Num (- 25000000),
                 payee = Some ''p2'', notes = ''Transfer to Gopay'', category = None,
                 payee_name = None, cleared = False\<rparr>"
             and deposit =
               "\<lparr>transaction.date = ''2026-11-02'', amount = Num 25000000,
                 payee = Some ''p1'', notes = ''Transfer from Cash'', category = None,
                 payee_name = None, cleared = False\<rparr>"]
    transfer_posted
          [where req = example_request and p = example_payload and eventId = "''m1''"
             and w = example_world
             and env = "transaction_env Transfer (example_transfer\<lparr>amount := ''-250000''\<rparr>)"
             and d = "\<lparr>intent = Transaction, transactionDetail = Transfer\<rparr>"
             and accounts = example_accounts and cats = example_categories
             and payees = example_payees
             and td = "example_transfer\<lparr>amount := ''-250000''\<rparr>"
             and account = "\<lparr>account.id = ''a1'', name = ''Cash'', closed = False\<rparr>"
             and payeeName = "''gopay''"
             and destinationAccount = "\<lparr>account.id = ''a2'', name = ''Gopay'', closed = False\<rparr>"
             and sourcePayee = "\<lparr>payee.id = ''p1'', name = ''Cash'', transfer_acct = Some ''a1''\<rparr>"
             and destinationPayee =
               "\<lparr>payee.id = ''p2'', name = ''Gopay'', transfer_acct = Some ''a2''\<rparr>"
             and withdrawal =
               "\<lparr>transaction.date = ''2026-11-02'', amount = Num (- 25000000),
                 payee = Some ''p2'', notes = ''Transfer to Gopay'', category = None,
                 payee_name = None, cleared = False\<rparr>"
             and deposit =
               "\<lparr>transaction.date = ''2026-11-02'', amount = Num 25000000,
                 payee = Some ''p1'', notes = ''Transfer from Cash'', category = None,
                 payee_name = None, cleared = False\<rparr>"]
    transfer_posted
          [where req = example_request and p = example_payload and eventId = "''m1''"
             and w = example_world
             and env = "transaction_env Transfer (example_transfer\<lparr>amount := ''19.99''\<rparr>)"
             and d = "\<lparr>intent = Transaction, transactionDetail = Transfer\<rparr>"
             and accounts = example_accounts and cats = example_categories
             and payees = example_payees
             and td = "example_transfer\<lparr>amount := ''19.99''\<rparr>"
             and account = "\<lparr>account.id = ''a1'', name = ''Cash'', closed = False\<rparr>"
             and payeeName = "''gopay''"
             and destinationAccount = "\<lparr>account.id = ''a2'', name = ''Gopay'', closed = False\<rparr>"
             and sourcePayee = "\<lparr>payee.id = ''p1'', name = ''Cash'', transfer_acct = Some ''a1''\<rparr>"
             and destinationPayee =
               "\<lparr>payee.id = ''p2'', name = ''Gopay'', transfer_acct = Some ''a2''\<rparr>"
             and withdrawal =
               "\<lparr>transaction.date = ''2026-11-02'', amount = Num (- (8791694975696895 / 4398046511104)),
                 payee = Some ''p2'', notes = ''Transfer to Gopay'', category = None,
                 payee_name = None, cleared = False\<rparr>"
             and deposit =
               "\<lparr>transaction.date = ''2026-11-02'', amount = Num (8791694975696895 / 4398046511104),
                 payee = Some ''p1'', notes = ''Transfer from Cash'', category = None,
                 payee_name = None, cleared = False\<rparr>"]
  by (simp add: example_defs eval_defs)

text \<open>
  The claim as stated fails on an amount whose hundredfold is not a double product: for a
  transfer of \<open>19.99\<close> the claim gives the amounts \<open>-1999\<close> and \<open>1999\<close>, and the
  transactions posted have the amounts \<open>-(1999 - 2^-42)\<close> and \<open>1999 - 2^-42\<close>.
\<close>

theorem transfer_amount_is_not_the_product:
  "handleWebhook (transaction_env Transfer (example_transfer\<lparr>amount := ''19.99''\<rparr>))
       example_request example_world =
     (Inr \<lparr>statusCode = 200, status = ''received''\<rparr>,
      \<lparr>webhookEvents = [''m1''], isInitialized = False,
       calls = [WebhookEvent_findOne ''m1'', WebhookEvent_create ''m1'',
                Waha_sendSeen ''628123@c.us'', Gemini_generateContent DetermineIntent ''Halo'',
                Actual_init, Actual_downloadBudget,
                Actual_getAccounts, Actual_getCategories, Actual_getPayees,
                Gemini_generateContent
                  (ProcessTransaction [''Cash'', ''Gopay'', ''Old wallet'']
                     [''Groceries'', ''Salary'']) ''Halo'',
                Actual_addTransactions ''a1''
                  [\<lparr>transaction.date = ''2026-11-02'', amount = Num (- (1999 - 1 / 2 ^ 42)),
                    payee = Some ''p2'', notes = ''Transfer to Gopay'', category = None,
                    payee_name = None, cleared = False\<rparr>],
                Actual_addTransactions ''a2''
                  [\<lparr>transaction.date = ''2026-11-02'', amount = Num (1999 - 1 / 2 ^ 42),
                    payee = Some ''p1'', notes = ''Transfer from Cash'', category = None,
                    payee_name = None, cleared = False\<rparr>],
                Actual_shutdown, Waha_sendText ''628123@c.us'' ''Moved.'']\<rparr>)
   \<and> Num (1999 - 1 / 2 ^ 42) \<noteq> Num (1999 / 100 * 100)"
  by (simp add: handleWebhook_def messageEvent_def transactionBranch_def
      transferTransaction_def io_defs service_defs example_defs eval_defs Let_def
      received_def)

subsection \<open>A transfer with no payee (C10)\<close>

text \<open>
  Claim C10. When the detail is a transfer and the extraction, valid for its schema, has
  \<open>payee = null\<close>, reading \<open>payee.toLowerCase()\<close> throws inside the \<open>try\<close>: nothing is
  posted, no reply is sent, \<open>shutdown\<close> is still called by the \<open>finally\<close>, and the request
  fails with the \<open>TypeError\<close> (or with the error of \<open>shutdown\<close>, should that fail too).
  When the database rejects the lookup or the creation of the record of the event the
  request fails before the branch is entered, and nothing else is called.
\<close>

theorem transfer_without_payee:
  assumes ev: "event req = ''message''" "payload req = Some p"
      "messagePayload.id p = Some eventId" "eventId \<noteq> []" "eventId \<notin> set (webhookEvents w)"
    and it: "gemini_intent env (body p) = Parsed d" "intent d = Transaction"
      "transactionDetail d = Transfer"
    and ini: "isInitialized w \<or> actual_init env \<and> actual_downloadBudget env"
    and fetch: "actual_getAccounts env = Some accounts" "actual_getCategories env = Some cats"
      "actual_getPayees env = Some payees"
    and tx: "gemini_transaction env (body p) (map account.name accounts) (map category.name cats)
               = Parsed td"
      "transactionData.category td \<in> set (map category.name cats)"
      "source_account_name td \<in> set (map account.name accounts)"
    and pay: "transactionData.payee td = None"
  shows "handleWebhook env req w =
     (if \<not> db_findOne env eventId
      then (Inl MongooseError, w\<lparr>calls := calls w @ [WebhookEvent_findOne eventId]\<rparr>)
      else if \<not> db_create env eventId
      then (Inl MongooseError,
            w\<lparr>calls := calls w @ [WebhookEvent_findOne eventId, WebhookEvent_create eventId]\<rparr>)
      else
        (Inl (if actual_shutdown env then TypeError else LibraryError),
         w\<lparr>webhookEvents := webhookEvents w @ [eventId],
           isInitialized := \<not> actual_shutdown env,
           calls := calls w
             @ [WebhookEvent_findOne eventId, WebhookEvent_create eventId, Waha_sendSeen (from p),
                Gemini_generateContent DetermineIntent (body p)]
             @ initCalls w
             @ [Actual_getAccounts, Actual_getCategories, Actual_getPayees,
                Gemini_generateContent
                  (ProcessTransaction (map account.name accounts) (map category.name cats)) (body p),
                Actual_shutdown]\<rparr>))"
proof (rule handleWebhook_database [OF ev])
  assume db: "db_findOne env eventId" "db_create env eventId"
  have f: "find (\<lambda>e. e = eventId) (webhookEvents w) = None"
    using ev(5) by (rule find_absent)
  have valid: "transactionData.category td \<in> category.name ` set cats"
    "source_account_name td \<in> account.name ` set accounts"
    using tx(2,3) by simp_all
  from tx(3) have "findByName account.name accounts (source_account_name td) \<noteq> None"
    by (auto simp add: findByName_def find_None_iff)
  then obtain account where
    src: "findByName account.name accounts (source_account_name td) = Some account"
    by blast
  note defs = handleWebhook_def messageEvent_def ev it fetch tx(1) src pay f valid db
    io_defs service_defs transactionBranch_def transferTransaction_def initCalls_def Let_def
  from ini show "handleWebhook env req w =
     (Inl (if actual_shutdown env then TypeError else LibraryError),
      w\<lparr>webhookEvents := webhookEvents w @ [eventId],
        isInitialized := \<not> actual_shutdown env,
        calls := calls w
          @ [WebhookEvent_findOne eventId, WebhookEvent_create eventId, Waha_sendSeen (from p),
             Gemini_generateContent DetermineIntent (body p)]
          @ initCalls w
          @ [Actual_getAccounts, Actual_getCategories, Actual_getPayees,
             Gemini_generateContent
               (ProcessTransaction (map account.name accounts) (map category.name cats)) (body p),
             Actual_shutdown]\<rparr>)"
    by (cases "isInitialized w"; cases "actual_shutdown env") (simp_all add: defs)
qed

theorem transfer_without_payee_witness:
  "handleWebhook (transaction_env Transfer (example_transfer\<lparr>payee := None\<rparr>))
       example_request example_world =
     (Inl TypeError,
      \<lparr>webhookEvents = [''m1''], isInitialized = False,
       calls = [WebhookEvent_findOne ''m1'', WebhookEvent_create ''m1'',
                Waha_sendSeen ''628123@c.us'', Gemini_generateContent DetermineIntent ''Halo'',
                Actual_init, Actual_downloadBudget,
                Actual_getAccounts, Actual_getCategories, Actual_getPayees,
                Gemini_generateContent
                  (ProcessTransaction [''Cash'', ''Gopay'', ''Old wallet'']
                     [''Groceries'', ''Salary'']) ''Halo'',
                Actual_shutdown]\<rparr>)"
  using transfer_without_payee
          [where req = example_request and p = example_payload and eventId = "''m1''"
             and w = example_world
             and env = "transaction_env Transfer (example_transfer\<lparr>payee := None\<rparr>)"
             and d = "\<lparr>intent = Transaction, transactionDetail = Transfer\<rparr>"
             and accounts = example_accounts and cats = example_categories
             and payees = example_payees and td = "example_transfer\<lparr>payee := None\<rparr>"]
  by (simp add: example_defs eval_defs)

subsection \<open>The budget of one category (C6)\<close>

text \<open>
  Claim C6 does not hold of the code. The branch for one category reads the property
  \<open>categorGroups\<close> of the budget month (line 237), where the summary branch reads
  \<open>categoryGroups\<close> (line 252). Whenever the object the backend returns has no property
  \<open>categorGroups\<close>, a query of the budget of a named category throws a \<open>TypeError\<close>:
  the request fails and neither the amounts nor a not-found message are sent. (When the
  database rejects the lookup or the creation of the record of the event the request fails
  before that, and no message is sent either.)
\<close>

theorem budget_of_category_fails:
  assumes ev: "event req = ''message''" "payload req = Some p"
      "messagePayload.id p = Some eventId" "eventId \<noteq> []" "eventId \<notin> set (webhookEvents w)"
    and it: "gemini_intent env (body p) = Parsed d" "intent d = Query_balance"
    and ini: "isInitialized w \<or> actual_init env \<and> actual_downloadBudget env"
    and fetch: "actual_getAccounts env = Some accounts" "actual_getCategories env = Some cats"
    and q: "gemini_balanceQuery env (body p) (map account.name accounts) (map category.name cats)
              = Parsed query"
      "query_type query = Budget \<or> query_type query = Summary"
      "queryData.name query = Some wanted" "wanted \<noteq> []" "toLowerCase wanted \<noteq> ''all''"
    and month: "actual_getBudgetMonth env (take 7 (toISOString env)) = Some budgetData"
      "budgetData ''categorGroups'' = None"
    and ok: "actual_shutdown env"
  shows "handleWebhook env req w =
     (if \<not> db_findOne env eventId
      then (Inl MongooseError, w\<lparr>calls := calls w @ [WebhookEvent_findOne eventId]\<rparr>)
      else if \<not> db_create env eventId
      then (Inl MongooseError,
            w\<lparr>calls := calls w @ [WebhookEvent_findOne eventId, WebhookEvent_create eventId]\<rparr>)
      else
        (Inl TypeError,
         w\<lparr>webhookEvents := webhookEvents w @ [eventId], isInitialized := False,
           calls := calls w
             @ [WebhookEvent_findOne eventId, WebhookEvent_create eventId, Waha_sendSeen (from p),
                Gemini_generateContent DetermineIntent (body p)]
             @ initCalls w
             @ [Actual_getAccounts, Actual_getCategories,
                Gemini_generateContent
                  (ProcessBalanceQuery (map account.name accounts) (map category.name cats)) (body p),
                Actual_getBudgetMonth (take 7 (toISOString env)), Actual_shutdown]\<rparr>))"
proof (rule handleWebhook_database [OF ev])
  assume db: "db_findOne env eventId" "db_create env eventId"
  have f: "find (\<lambda>e. e = eventId) (webhookEvents w) = None"
    using ev(5) by (rule find_absent)
  have nq: "query_type query \<noteq> Account" using q(2) by auto
  note defs = handleWebhook_def messageEvent_def ev it fetch q(1,3,4,5) nq month f db
    io_defs service_defs queryBalanceBranch_def budgetQuery_def specificName_def initCalls_def
    Let_def
  from ini ok show "handleWebhook env req w =
     (Inl TypeError,
      w\<lparr>webhookEvents := webhookEvents w @ [eventId], isInitialized := False,
        calls := calls w
          @ [WebhookEvent_findOne eventId, WebhookEvent_create eventId, Waha_sendSeen (from p),
             Gemini_generateContent DetermineIntent (body p)]
          @ initCalls w
          @ [Actual_getAccounts, Actual_getCategories,
             Gemini_generateContent
               (ProcessBalanceQuery (map account.name accounts) (map category.name cats)) (body p),
             Actual_getBudgetMonth (take 7 (toISOString env)), Actual_shutdown]\<rparr>)"
    by (cases "isInitialized w") (simp_all add: defs)
qed

theorem budget_of_category_fails_witness:
  "handleWebhook (balance_env \<lparr>query_type = Budget, name = Some ''Groceries''\<rparr>)
       example_request example_world =
     (Inl TypeError,
      \<lparr>webhookEvents = [''m1''], isInitialized = False,
       calls = [WebhookEvent_findOne ''m1'', WebhookEvent_create ''m1'',
                Waha_sendSeen ''628123@c.us'', Gemini_generateContent DetermineIntent ''Halo'',
                Actual_init, Actual_downloadBudget, Actual_getAccounts, Actual_getCategories,
                Gemini_generateContent
                  (ProcessBalanceQuery [''Cash'', ''Gopay'', ''Old wallet'']
                     [''Groceries'', ''Salary'']) ''Halo'',
                Actual_getBudgetMonth ''2026-11'', Actual_shutdown]\<rparr>)"
  using budget_of_category_fails
          [where req = example_request and p = example_payload and eventId = "''m1''"
             and w = example_world
             and env = "balance_env \<lparr>query_type = Budget, name = Some ''Groceries''\<rparr>"
             and d = "\<lparr>intent = Query_balance, transactionDetail = Expense\<rparr>"
             and accounts = example_accounts and cats = example_categories
             and query = "\<lparr>query_type = Budget, name = Some ''Groceries''\<rparr>"
             and wanted = "''Groceries''"
             and budgetData = "[''categoryGroups'' \<mapsto> example_groups]"]
  by (simp add: example_defs eval_defs)

subsection \<open>The balances of all accounts (C7)\<close>

text \<open>
  Claim C7 does not hold of the code. For a query of account balances whose name is \<open>all\<close>
  in any letter case (and whose record the database and whose balance requests the backend
  accept), the reply is the heading followed, for each account that is not closed and in the
  order of the accounts, by a line feed and the line of that account, and by nothing for a
  closed account; one balance is requested for each open account and none for a closed one,
  and the reply is sent once \<open>shutdown\<close> has returned. The line of an account is its name
  and what the formatter of the runtime returns for the balance divided by 100.
  \<open>formatIDR\<close> asks for the locale \<open>id-ID\<close> and the currency \<open>IDR\<close> and for no number of
  decimals, though its comment promises \<open>150000 -> Rp 150.000,00\<close>: on a runtime whose locale
  data give the rupiah no decimals the lines read \<open>Rp 150.000\<close> and \<open>Rp 26\<close> (for 25.5),
  without the two decimals of the claim.
\<close>

theorem all_open_accounts_listed:
  assumes ev: "event req = ''message''" "payload req = Some p"
      "messagePayload.id p = Some eventId" "eventId \<noteq> []" "eventId \<notin> set (webhookEvents w)"
    and db: "db_findOne env eventId" "db_create env eventId"
    and it: "gemini_intent env (body p) = Parsed d" "intent d = Query_balance"
    and ini: "isInitialized w \<or> actual_init env \<and> actual_downloadBudget env"
    and fetch: "actual_getAccounts env = Some accounts" "actual_getCategories env = Some cats"
    and q: "gemini_balanceQuery env (body p) (map account.name accounts) (map category.name cats)
              = Parsed query"
      "query_type query = Account" "queryData.name query = Some wanted"
      "toLowerCase wanted = ''all''"
    and balances: "\<forall>acc \<in> set accounts. \<not> closed acc
           \<longrightarrow> actual_getAccountBalance env (account.id acc) = Some (minorUnits acc)"
    and reply: "reply =
        ''*'' @ [CHR 0xF0, CHR 0x9F, CHR 0x8F, CHR 0xA6] @ '' All Account Balances:*''
        @ concat (map (\<lambda>acc. [CHR 0x0A] @ ''*'' @ account.name acc @ '':* ''
                              @ intl_format env (divide100 (minorUnits acc)))
                    (filter (\<lambda>acc. \<not> closed acc) accounts))"
  shows "handleWebhook env req w =
     (if actual_shutdown env
      then (if waha_sendText env (from p) reply
            then Inr \<lparr>statusCode = 200, status = ''received''\<rparr>
            else Inl (ApiError 500 ''WAHA API Error''))
      else Inl LibraryError,
      w\<lparr>webhookEvents := webhookEvents w @ [eventId],
        isInitialized := \<not> actual_shutdown env,
        calls := calls w
          @ [WebhookEvent_findOne eventId, WebhookEvent_create eventId, Waha_sendSeen (from p),
             Gemini_generateContent DetermineIntent (body p)]
          @ initCalls w
          @ [Actual_getAccounts, Actual_getCategories,
             Gemini_generateContent
               (ProcessBalanceQuery (map account.name accounts) (map category.name cats)) (body p)]
          @ map (\<lambda>acc. Actual_getAccountBalance (account.id acc))
              (filter (\<lambda>acc. \<not> closed acc) accounts)
          @ [Actual_shutdown]
          @ (if actual_shutdown env then [Waha_sendText (from p) reply] else [])\<rparr>)"
proof -
  have joined: "join ((''*'' @ bank_emoji @ '' All Account Balances:*'')
                    # map (\<lambda>acc. accountLine env acc (minorUnits acc))
                        (filter (\<lambda>acc. \<not> closed acc) accounts)) newline = reply"
    by (simp add: newline_def join_lines reply bank_emoji_def accountLine_def formatIDR_def
        comp_def)
  have lines: "accountQuery env accounts query w' =
      (Inr reply, w'\<lparr>calls := calls w' @ map (\<lambda>acc. Actual_getAccountBalance (account.id acc))
                             (filter (\<lambda>acc. \<not> closed acc) accounts)\<rparr>)"
    if "isInitialized w'" for w'
    using joined
    by (simp add: accountQuery_def q balanceLines_run [OF that balances] filterBoolean_lines
        await_def return_def)
  have branch: "intentBranch env (body p) d (afterIntent w p eventId) =
      (if actual_shutdown env then Inr reply else Inl LibraryError,
       (afterIntent w p eventId)\<lparr>isInitialized := \<not> actual_shutdown env,
         calls := calls (afterIntent w p eventId) @ initCalls w
           @ [Actual_getAccounts, Actual_getCategories,
              Gemini_generateContent
                (ProcessBalanceQuery (map account.name accounts) (map category.name cats)) (body p)]
           @ map (\<lambda>acc. Actual_getAccountBalance (account.id acc))
               (filter (\<lambda>acc. \<not> closed acc) accounts) @ [Actual_shutdown]\<rparr>)"
    using ini
    by (cases "isInitialized w"; cases "actual_shutdown env")
       (simp_all add: intentBranch_def it queryBalanceBranch_def fetch q(1,2) io_defs
         init_def ensureInitialized_def getAccounts_def getCategories_def
         processBalanceQuery_def shutdown_def lines
         initCalls_def Let_def afterIntent_def)
  show ?thesis
    unfolding handleWebhook_fresh [OF ev db] it(1) generated.case branch
    by (simp add: received_def afterIntent_def)
qed

text \<open>
  Two open accounts, with 15000000 and 2550 minor units, and a closed one: the reply has the
  heading and two lines, and on the runtime of the example neither amount has decimals.
\<close>

theorem all_open_accounts_listed_witness:
  "handleWebhook (balance_env \<lparr>query_type = Account, name = Some ''All''\<rparr>)
       example_request example_world =
     (Inr \<lparr>statusCode = 200, status = ''received''\<rparr>,
      \<lparr>webhookEvents = [''m1''], isInitialized = False,
       calls = [WebhookEvent_findOne ''m1'', WebhookEvent_create ''m1'',
                Waha_sendSeen ''628123@c.us'', Gemini_generateContent DetermineIntent ''Halo'',
                Actual_init, Actual_downloadBudget, Actual_getAccounts, Actual_getCategories,
                Gemini_generateContent
                  (ProcessBalanceQuery [''Cash'', ''Gopay'', ''Old wallet'']
                     [''Groceries'', ''Salary'']) ''Halo'',
                Actual_getAccountBalance ''a1'', Actual_getAccountBalance ''a2'',
                Actual_shutdown,
                Waha_sendText ''628123@c.us''
                  (''*'' @ [CHR 0xF0, CHR 0x9F, CHR 0x8F, CHR 0xA6] @ '' All Account Balances:*''
                   @ [CHR 0x0A] @ ''*Cash:* Rp'' @ [CHR 0xC2, CHR 0xA0] @ ''150.000''
                   @ [CHR 0x0A] @ ''*Gopay:* Rp'' @ [CHR 0xC2, CHR 0xA0] @ ''26'')]\<rparr>)"
  using all_open_accounts_listed
          [where req = example_request and p = example_payload and eventId = "''m1''"
             and w = example_world
             and env = "balance_env \<lparr>query_type = Account, name = Some ''All''\<rparr>"
             and d = "\<lparr>intent = Query_balance, transactionDetail = Expense\<rparr>"
             and accounts = example_accounts and cats = example_categories
             and query = "\<lparr>query_type = Account, name = Some ''All''\<rparr>"
             and wanted = "''All''"
             and minorUnits =
               "\<lambda>acc. if account.id acc = ''a1'' then Num 15000000 else Num 2550"
             and reply =
               "''*'' @ [CHR 0xF0, CHR 0x9F, CHR 0x8F, CHR 0xA6] @ '' All Account Balances:*''
                @ [CHR 0x0A] @ ''*Cash:* Rp'' @ [CHR 0xC2, CHR 0xA0] @ ''150.000''
                @ [CHR 0x0A] @ ''*Gopay:* Rp'' @ [CHR 0xC2, CHR 0xA0] @ ''26''"]
  by (simp add: example_defs eval_defs)

end
